theory Spec2Isabelle
  imports Complex_Main "HOL-Library.Sublist"
begin

section \<open>Data model\<close>

text \<open>
  The store keeps plain JavaScript objects that came out of \<^verbatim>\<open>JSON.parse\<close>. A JSON value
  is a \<open>jsval\<close>; an object is a map from property names to values, and reading a property
  that is absent gives \<open>None\<close> (JavaScript's \<^verbatim>\<open>undefined\<close>). Numbers are the finite
  numbers JSON can carry.
\<close>

datatype jsval =
    JNull
  | JBool bool
  | JNum rat
  | JStr string
  | JArr "jsval list"
  | JObj "string \<Rightarrow> jsval option"

type_synonym obj = "string \<Rightarrow> jsval option"

text \<open>
  What a \<^verbatim>\<open>throw\<close> carries: the built-in \<^verbatim>\<open>TypeError\<close>, or \<^verbatim>\<open>new Error(message)\<close>.
  \<open>Unmodelled\<close> is not a JavaScript outcome: it marks an evaluation that needs a string,
  array or object converted to a number, which this model does not describe.
\<close>

datatype exn = TypeError | Error string | Unmodelled

text \<open>
  \<^verbatim>\<open>properties.json\<close> on disk. \<open>Missing\<close>: \<^verbatim>\<open>fs.existsSync\<close> is false. \<open>Unreadable\<close>: the
  directory cannot be made or \<^verbatim>\<open>fs.readFileSync\<close> throws. \<open>Malformed\<close>: the text is there and
  \<^verbatim>\<open>JSON.parse\<close> throws. \<open>Json ps\<close>: the text parses to the array of objects \<open>ps\<close>, which
  is the only shape \<^verbatim>\<open>writeProperties\<close> ever produces; no other code writes the file.
\<close>

datatype disk_file = Missing | Unreadable | Malformed | Json "obj list"

text \<open>
  The part of the machine the code touches: the properties file, whether
  \<^verbatim>\<open>fs.writeFileSync\<close> on it succeeds, the lines printed with \<^verbatim>\<open>console.error\<close> (each by
  its fixed leading text), and the paths of the image files written so far.
\<close>

record world =
  properties_file :: disk_file
  disk_writable :: bool
  console_error :: "string list"
  uploads :: "string list"

section \<open>storage.js\<close>

text \<open>The body of the \<^verbatim>\<open>try\<close> block of \<^verbatim>\<open>readProperties\<close>; \<open>Inl\<close> is a throw.\<close>

definition readProperties_try :: "world \<Rightarrow> exn + obj list" where
  "readProperties_try w =
     (case properties_file w of
        Missing \<Rightarrow> Inr []
      | Unreadable \<Rightarrow> Inl (Error ''EACCES'')
      | Malformed \<Rightarrow> Inl (Error ''SyntaxError'')
      | Json ps \<Rightarrow> Inr ps)"

definition readProperties :: "world \<Rightarrow> obj list \<times> world" where
  "readProperties w =
     (case readProperties_try w of
        Inr ps \<Rightarrow> (ps, w)
      | Inl e \<Rightarrow> ([], w\<lparr>console_error := console_error w @ [''Error reading properties:'']\<rparr>))"

definition writeProperties :: "world \<Rightarrow> obj list \<Rightarrow> bool \<times> world" where
  "writeProperties w properties =
     (if disk_writable w
      then (True, w\<lparr>properties_file := Json properties\<rparr>)
      else (False, w\<lparr>console_error := console_error w @ [''Error writing properties:'']\<rparr>))"

text \<open>
  A number inside a template literal: its decimal digits. \<open>digit_char\<close> is only applied to
  numbers below 10.
\<close>

definition digit_char :: "nat \<Rightarrow> char" where
  "digit_char n = ''0123456789'' ! n"

fun show_nat :: "nat \<Rightarrow> string" where
  "show_nat n = (if n < 10 then [digit_char n] else show_nat (n div 10) @ [digit_char (n mod 10)])"

declare show_nat.simps [simp del]

text \<open>
  What the environment hands to one \<^verbatim>\<open>saveProperty\<close> call: \<^verbatim>\<open>Date.now()\<close>, the text of
  \<^verbatim>\<open>Math.random().toString(36)\<close>, and the two \<^verbatim>\<open>new Date().toISOString()\<close> readings.
\<close>

record create_env =
  date_now :: nat
  math_random :: string
  created_iso :: string
  updated_iso :: string

definition propertyId :: "create_env \<Rightarrow> string" where
  "propertyId env = ''PROP_'' @ show_nat (date_now env) @ ''_'' @ take 9 (drop 2 (math_random env))"

definition newProperty :: "obj \<Rightarrow> create_env \<Rightarrow> obj" where
  "newProperty propertyData env =
     ([''id'' \<mapsto> JStr (propertyId env)] ++ propertyData)
       (''createdAt'' \<mapsto> JStr (created_iso env), ''updatedAt'' \<mapsto> JStr (updated_iso env))"

definition saveProperty :: "world \<Rightarrow> obj \<Rightarrow> create_env \<Rightarrow> (exn + obj) \<times> world" where
  "saveProperty w propertyData env =
     (let (properties, w1) = readProperties w;
          properties = properties @ [newProperty propertyData env];
          (ok, w2) = writeProperties w1 properties
      in if ok then (Inr (newProperty propertyData env), w2)
         else (Inl (Error ''Failed to save property''), w2))"

definition getAllProperties :: "world \<Rightarrow> obj list \<times> world" where
  "getAllProperties w = readProperties w"

text \<open>\<^verbatim>\<open>prop.id === id\<close> for a string \<^verbatim>\<open>id\<close>.\<close>

definition has_id :: "string \<Rightarrow> obj \<Rightarrow> bool" where
  "has_id ident prop = (prop ''id'' = Some (JStr ident))"

definition getPropertyById :: "world \<Rightarrow> string \<Rightarrow> obj option \<times> world" where
  "getPropertyById w ident =
     (let (properties, w1) = readProperties w
      in (find (has_id ident) properties, w1))"

text \<open>\<^verbatim>\<open>Array.prototype.findIndex\<close>: the first index whose element passes, \<open>None\<close> for \<open>-1\<close>.\<close>

fun findIndex :: "('a \<Rightarrow> bool) \<Rightarrow> 'a list \<Rightarrow> nat option" where
  "findIndex P [] = None"
| "findIndex P (x # xs) =
     (if P x then Some 0 else (case findIndex P xs of None \<Rightarrow> None | Some i \<Rightarrow> Some (Suc i)))"

definition updateProperty ::
  "world \<Rightarrow> string \<Rightarrow> obj \<Rightarrow> string \<Rightarrow> (exn + obj option) \<times> world" where
  "updateProperty w ident updateData now_iso =
     (let (properties, w1) = readProperties w
      in case findIndex (has_id ident) properties of
           None \<Rightarrow> (Inr None, w1)
         | Some index \<Rightarrow>
             (let properties = properties
                    [index := ((properties ! index) ++ updateData)(''updatedAt'' \<mapsto> JStr now_iso)];
                  (ok, w2) = writeProperties w1 properties
              in if ok then (Inr (Some (properties ! index)), w2)
                 else (Inl (Error ''Failed to update property''), w2)))"

definition deleteProperty :: "world \<Rightarrow> string \<Rightarrow> bool \<times> world" where
  "deleteProperty w ident =
     (let (properties, w1) = readProperties w;
          filteredProperties = filter (\<lambda>prop. \<not> has_id ident prop) properties
      in if length filteredProperties = length properties then (False, w1)
         else writeProperties w1 filteredProperties)"

section \<open>imageHandler.js\<close>

text \<open>
  An image payload as the request schema types it (\<^verbatim>\<open>validation.js\<close>): \<^verbatim>\<open>name\<close>, \<^verbatim>\<open>type\<close> and
  \<^verbatim>\<open>data\<close> are strings, \<^verbatim>\<open>size\<close> is a number, and each may be absent (\<open>None\<close>).
\<close>

record imageData =
  img_name :: "string option"
  img_type :: "string option"
  img_data :: "string option"
  img_size :: "rat option"

text \<open>JavaScript truthiness of an optional string and of an optional number.\<close>

definition truthy_str :: "string option \<Rightarrow> bool" where
  "truthy_str v = (case v of None \<Rightarrow> False | Some s \<Rightarrow> s \<noteq> [])"

definition truthy_num :: "rat option \<Rightarrow> bool" where
  "truthy_num v = (case v of None \<Rightarrow> False | Some n \<Rightarrow> n \<noteq> 0)"

definition mimeToExt :: "(string \<times> string) list" where
  "mimeToExt =
     [(''image/jpeg'', ''.jpg''), (''image/jpg'', ''.jpg''),
      (''image/png'', ''.png''), (''image/webp'', ''.webp'')]"

definition getExtensionFromMimeType :: "string option \<Rightarrow> string" where
  "getExtensionFromMimeType mimeType =
     (case mimeType of
        None \<Rightarrow> ''.jpg''
      | Some t \<Rightarrow> (case map_of mimeToExt t of Some ext \<Rightarrow> ext | None \<Rightarrow> ''.jpg''))"

text \<open>
  What the environment and the Node library hand to one \<^verbatim>\<open>processImage\<close> call:
  \<^verbatim>\<open>Date.now()\<close>, \<^verbatim>\<open>crypto.randomBytes(8).toString('hex')\<close>, \<^verbatim>\<open>path.extname(originalName)\<close>,
  the length of \<^verbatim>\<open>Buffer.from(base64Data, 'base64')\<close>, and the message of the exception that
  the file system raises inside the \<^verbatim>\<open>try\<close> block, if it raises one. \<^verbatim>\<open>path.join\<close> is
  taken on a directory name that needs no normalising, as \<^verbatim>\<open>uploads/images\<close> is.
\<close>

record ingest_env =
  timestamp :: nat
  randomString :: string
  path_extname :: string
  buffer_length :: nat
  thrown :: "string option"

definition generateUniqueFilename :: "ingest_env \<Rightarrow> string option \<Rightarrow> string" where
  "generateUniqueFilename env mimeType =
     (let extension =
            (if path_extname env \<noteq> [] then path_extname env
             else getExtensionFromMimeType mimeType)
      in show_nat (timestamp env) @ ''_'' @ randomString env @ extension)"

definition allowedTypes :: "string list" where
  "allowedTypes = [''image/jpeg'', ''image/jpg'', ''image/png'', ''image/webp'']"

text \<open>The regular expression \<^verbatim>\<open>/^data:image\/(jpeg|jpg|png|webp);base64,/\<close> tested on a string.\<close>

definition base64Regex_test :: "string \<Rightarrow> bool" where
  "base64Regex_test s =
     list_ex (\<lambda>alt. prefix (''data:image/'' @ alt @ '';base64,'') s)
       [''jpeg'', ''jpg'', ''png'', ''webp'']"

record validation =
  isValid :: bool
  validation_errors :: "string list"

definition validateImageData :: "imageData \<Rightarrow> validation" where
  "validateImageData imageData =
     (let errors = [];
          errors = (if \<not> truthy_str (img_name imageData)
                    then errors @ [''Image name is required''] else errors);
          errors = (if \<not> truthy_str (img_type imageData)
                    then errors @ [''Image type is required'']
                    else if img_type imageData \<notin> Some ` set allowedTypes
                    then errors @ [''Invalid image type. Only JPEG, PNG, and WebP are allowed'']
                    else errors);
          errors = (if \<not> truthy_str (img_data imageData)
                    then errors @ [''Image data is required'']
                    else if \<not> (case img_data imageData of
                                   Some d \<Rightarrow> base64Regex_test d | None \<Rightarrow> False)
                    then errors @ [''Invalid base64 image data format'']
                    else errors);
          errors = (if truthy_num (img_size imageData) \<and>
                       (case img_size imageData of
                          Some n \<Rightarrow> n > 10 * 1024 * 1024 | None \<Rightarrow> False)
                    then errors @ [''Image size cannot exceed 10MB''] else errors)
      in \<lparr>isValid = (length errors = 0), validation_errors = errors\<rparr>)"

text \<open>
  The three shapes \<^verbatim>\<open>processImage\<close> returns: \<^verbatim>\<open>{success: true, filename, filepath, size,
  originalName}\<close>, \<^verbatim>\<open>{success: false, errors}\<close> and, from the \<^verbatim>\<open>catch\<close>,
  \<^verbatim>\<open>{success: false, error}\<close>.
\<close>

datatype image_result =
    Stored string string nat "string option"
  | Invalid "string list"
  | Caught string

definition processImage ::
  "world \<Rightarrow> imageData \<Rightarrow> string \<Rightarrow> ingest_env \<Rightarrow> image_result \<times> world" where
  "processImage w imageData uploadDir env =
     (let validation = validateImageData imageData
      in if \<not> isValid validation then (Invalid (validation_errors validation), w)
         else case thrown env of
                Some message \<Rightarrow> (Caught message, w)
              | None \<Rightarrow>
                  (let filename = generateUniqueFilename env (img_type imageData);
                       filepath = uploadDir @ ''/'' @ filename
                   in (Stored filename filepath (buffer_length env) (img_name imageData),
                       w\<lparr>uploads := uploads w @ [filepath]\<rparr>)))"

text \<open>An entry of \<^verbatim>\<open>processedImages\<close> and an entry of \<^verbatim>\<open>errors\<close>.\<close>

datatype processed =
  Processed (p_index: nat) (p_filename: string) (p_filepath: string) (p_size: nat)
    (p_originalName: "string option")

datatype failure =
  Failure (e_index: nat) (e_originalName: "string option") (e_errors: "string list")

text \<open>
  The \<^verbatim>\<open>for\<close> loop of \<^verbatim>\<open>processImages\<close>: \<open>i\<close> is the loop counter, the list holds
  \<^verbatim>\<open>images[i], images[i+1], ...\<close>, and \<open>envs i\<close> is what the environment hands to item \<open>i\<close>.
\<close>

fun processImages_loop ::
  "world \<Rightarrow> imageData list \<Rightarrow> string \<Rightarrow> (nat \<Rightarrow> ingest_env) \<Rightarrow> nat \<Rightarrow>
   processed list \<Rightarrow> failure list \<Rightarrow> (processed list \<times> failure list) \<times> world" where
  "processImages_loop w [] uploadDir envs i results errors = ((results, errors), w)"
| "processImages_loop w (imageData # rest) uploadDir envs i results errors =
     (case processImage w imageData uploadDir (envs i) of
        (Stored filename filepath sz originalName, w') \<Rightarrow>
          processImages_loop w' rest uploadDir envs (Suc i)
            (results @ [Processed i filename filepath sz originalName]) errors
      | (Invalid es, w') \<Rightarrow>
          processImages_loop w' rest uploadDir envs (Suc i) results
            (errors @ [Failure i (img_name imageData) es])
      | (Caught message, w') \<Rightarrow>
          processImages_loop w' rest uploadDir envs (Suc i) results
            (errors @ [Failure i (img_name imageData) [message]]))"

text \<open>
  \<^verbatim>\<open>processImages\<close> on an array of payloads; the empty array takes the early return.
\<close>

record batch =
  success :: bool
  processedImages :: "processed list"
  errors :: "failure list"

definition processImages ::
  "world \<Rightarrow> imageData list \<Rightarrow> string \<Rightarrow> (nat \<Rightarrow> ingest_env) \<Rightarrow> batch \<times> world" where
  "processImages w images uploadDir envs =
     (if length images = 0
      then (\<lparr>success = True, processedImages = [], errors = []\<rparr>, w)
      else (let ((results, errs), w') = processImages_loop w images uploadDir envs 0 [] []
            in (\<lparr>success = (length errs = 0), processedImages = results, errors = errs\<rparr>, w')))"

section \<open>storage.js: searchProperties\<close>

text \<open>
  The filter object as \<^verbatim>\<open>getProperties\<close> builds it: two optional strings taken from the
  query and four optional numbers made by \<^verbatim>\<open>parseFloat\<close> and \<^verbatim>\<open>parseInt\<close>.
\<close>

record filters =
  propertyType :: "string option"
  location :: "string option"
  minPrice :: "rat option"
  maxPrice :: "rat option"
  beds :: "rat option"
  baths :: "rat option"

text \<open>
  Strings are lists of bytes. \<^verbatim>\<open>String.prototype.toLowerCase\<close> belongs to the JavaScript
  engine, not to the repository, and folds every cased letter of Unicode: the functions
  that call it take it as their parameter \<open>toLowerCase\<close>, so that what is proved of them
  holds whatever the folding does. \<^verbatim>\<open>String.prototype.includes\<close> asks whether the argument
  occurs as a contiguous part of the string.
\<close>

fun str_includes :: "string \<Rightarrow> string \<Rightarrow> bool" where
  "str_includes [] t = (t = [])"
| "str_includes (c # s) t = (prefix t (c # s) \<or> str_includes s t)"

text \<open>
  \<^verbatim>\<open>prop.field.toLowerCase()\<close>: only a string has the method; on \<^verbatim>\<open>undefined\<close>, \<^verbatim>\<open>null\<close> and
  every other JSON value the call throws a \<^verbatim>\<open>TypeError\<close>.
\<close>

definition field_toLowerCase :: "(string \<Rightarrow> string) \<Rightarrow> jsval option \<Rightarrow> exn + string" where
  "field_toLowerCase toLowerCase v =
     (case v of Some (JStr s) \<Rightarrow> Inr (toLowerCase s) | _ \<Rightarrow> Inl TypeError)"

text \<open>
  The operand of \<^verbatim>\<open>>=\<close> and \<^verbatim>\<open><=\<close> converted to a number when the other operand is a
  number: \<open>Inr None\<close> is \<^verbatim>\<open>NaN\<close>, against which every comparison is false.
\<close>

fun toNumber :: "jsval option \<Rightarrow> exn + rat option" where
  "toNumber None = Inr None"
| "toNumber (Some JNull) = Inr (Some 0)"
| "toNumber (Some (JBool b)) = Inr (Some (if b then 1 else 0))"
| "toNumber (Some (JNum x)) = Inr (Some x)"
| "toNumber (Some (JStr s)) = Inl Unmodelled"
| "toNumber (Some (JArr xs)) = Inl Unmodelled"
| "toNumber (Some (JObj m)) = Inl Unmodelled"

definition field_ge :: "jsval option \<Rightarrow> rat \<Rightarrow> exn + bool" where
  "field_ge v n =
     (case toNumber v of Inl e \<Rightarrow> Inl e | Inr None \<Rightarrow> Inr False | Inr (Some x) \<Rightarrow> Inr (x \<ge> n))"

definition field_le :: "jsval option \<Rightarrow> rat \<Rightarrow> exn + bool" where
  "field_le v n =
     (case toNumber v of Inl e \<Rightarrow> Inl e | Inr None \<Rightarrow> Inr False | Inr (Some x) \<Rightarrow> Inr (x \<le> n))"

text \<open>\<^verbatim>\<open>Array.prototype.filter\<close> with a callback that may throw: the first throw ends the call.\<close>

fun filter_exn :: "('a \<Rightarrow> exn + bool) \<Rightarrow> 'a list \<Rightarrow> exn + 'a list" where
  "filter_exn P [] = Inr []"
| "filter_exn P (x # xs) =
     (case P x of
        Inl e \<Rightarrow> Inl e
      | Inr b \<Rightarrow> (case filter_exn P xs of
                    Inl e \<Rightarrow> Inl e
                  | Inr ys \<Rightarrow> Inr (if b then x # ys else ys)))"

text \<open>One \<^verbatim>\<open>properties = properties.filter(...)\<close> statement, after the statements before it.\<close>

definition refilter :: "(obj \<Rightarrow> exn + bool) \<Rightarrow> exn + obj list \<Rightarrow> exn + obj list" where
  "refilter P properties = (case properties of Inl e \<Rightarrow> Inl e | Inr ps \<Rightarrow> filter_exn P ps)"

definition includes_filter ::
  "(string \<Rightarrow> string) \<Rightarrow> string \<Rightarrow> string \<Rightarrow> obj \<Rightarrow> exn + bool" where
  "includes_filter toLowerCase field t prop =
     (case field_toLowerCase toLowerCase (prop field) of
        Inl e \<Rightarrow> Inl e
      | Inr s \<Rightarrow> Inr (str_includes s (toLowerCase t)))"

definition searchProperties ::
  "(string \<Rightarrow> string) \<Rightarrow> world \<Rightarrow> filters \<Rightarrow> (exn + obj list) \<times> world" where
  "searchProperties toLowerCase w filters =
     (let (ps, w1) = readProperties w;
          properties = Inr ps;
          properties = (if truthy_str (propertyType filters)
                        then refilter (includes_filter toLowerCase ''propertyType''
                                        (case propertyType filters of Some t \<Rightarrow> t | None \<Rightarrow> []))
                               properties
                        else properties);
          properties = (if truthy_str (location filters)
                        then refilter (includes_filter toLowerCase ''location''
                                        (case location filters of Some t \<Rightarrow> t | None \<Rightarrow> []))
                               properties
                        else properties);
          properties = (if truthy_num (minPrice filters)
                        then refilter (\<lambda>prop. field_ge (prop ''price'')
                                        (case minPrice filters of Some n \<Rightarrow> n | None \<Rightarrow> 0))
                               properties
                        else properties);
          properties = (if truthy_num (maxPrice filters)
                        then refilter (\<lambda>prop. field_le (prop ''price'')
                                        (case maxPrice filters of Some n \<Rightarrow> n | None \<Rightarrow> 0))
                               properties
                        else properties);
          properties = (if truthy_num (beds filters)
                        then refilter (\<lambda>prop. field_ge (prop ''beds'')
                                        (case beds filters of Some n \<Rightarrow> n | None \<Rightarrow> 0))
                               properties
                        else properties);
          properties = (if truthy_num (baths filters)
                        then refilter (\<lambda>prop. field_ge (prop ''baths'')
                                        (case baths filters of Some n \<Rightarrow> n | None \<Rightarrow> 0))
                               properties
                        else properties)
      in (properties, w1))"

section \<open>propertyController.js: addProperty\<close>

text \<open>
  \<^verbatim>\<open>req.validatedData\<close>: the image payloads, when the request carries any, and every other
  field of the form.
\<close>

record propertyData =
  form :: obj
  images :: "imageData list option"

text \<open>The three ways \<^verbatim>\<open>addProperty\<close> answers: status 201, status 400, or \<^verbatim>\<open>next(new ApiError(..., 500))\<close>.\<close>

datatype response =
    Created obj "processed list"
  | ImageProcessingFailed "failure list"
  | ApiError string

definition image_meta :: "processed \<Rightarrow> jsval" where
  "image_meta img =
     JObj ((Map.empty
             (''filename'' \<mapsto> JStr (p_filename img),
              ''size'' \<mapsto> JNum (of_nat (p_size img)),
              ''filepath'' \<mapsto> JStr (p_filepath img)))
           (''originalName'' := map_option JStr (p_originalName img)))"

fun message :: "exn \<Rightarrow> string" where
  "message (Error m) = m"
| "message TypeError = ''TypeError''"
| "message Unmodelled = ''Unmodelled''"

definition addProperty ::
  "world \<Rightarrow> propertyData \<Rightarrow> (nat \<Rightarrow> ingest_env) \<Rightarrow> create_env \<Rightarrow> response \<times> world" where
  "addProperty w propertyData envs env =
     (let (imageResult, w1) =
            (case images propertyData of
               None \<Rightarrow> (\<lparr>success = True, processedImages = [], errors = []\<rparr>, w)
             | Some imgs \<Rightarrow>
                 if length imgs > 0 then processImages w imgs ''uploads/images'' envs
                 else (\<lparr>success = True, processedImages = [], errors = []\<rparr>, w))
      in if \<not> success imageResult
         then (ImageProcessingFailed (errors imageResult),
               w1\<lparr>console_error := console_error w1 @ [''Image processing errors:'']\<rparr>)
         else (case saveProperty w1
                      ((form propertyData)
                         (''images'' \<mapsto> JArr (map image_meta (processedImages imageResult))))
                      env of
                 (Inr savedProperty, w2) \<Rightarrow>
                   (Created savedProperty (processedImages imageResult), w2)
               | (Inl err, w2) \<Rightarrow>
                   (ApiError (''Failed to process property submission: '' @ message err),
                    w2\<lparr>console_error := console_error w2 @ [''Error processing property:'']\<rparr>)))"

section \<open>Contracts and example inputs\<close>

text \<open>
  What follows is not code of the repository: the contracts that the facts below compare
  the code with, and concrete stores, payloads and filter sets to run the code on.
\<close>

subsection \<open>Stores\<close>

text \<open>A store with two records that carry nothing but an id.\<close>

definition two_records :: world where
  "two_records =
     \<lparr>properties_file =
        Json (map (\<lambda>ident. [''id'' \<mapsto> JStr ident]) [''PROP_1_a'', ''PROP_2_b'']),
      disk_writable = True, console_error = [], uploads = []\<rparr>"

subsection \<open>Image validation\<close>

text \<open>
  The four validation rules of an image payload, as the specification words them: a name
  that is present and not empty, a declared type from the allowed set, data that is present
  and begins with the data-URI prefix of an allowed image type, and a declared size, when
  there is one, of at most 10 MiB.
\<close>

definition spec_name_present :: "imageData \<Rightarrow> bool" where
  "spec_name_present i = (\<exists>n. img_name i = Some n \<and> n \<noteq> [])"

definition spec_type_allowed :: "imageData \<Rightarrow> bool" where
  "spec_type_allowed i =
     (\<exists>t. img_type i = Some t \<and>
          t \<in> {''image/jpeg'', ''image/jpg'', ''image/png'', ''image/webp''})"

definition spec_data_matches :: "imageData \<Rightarrow> bool" where
  "spec_data_matches i =
     (\<exists>d alt rest. img_data i = Some d \<and> alt \<in> {''jpeg'', ''jpg'', ''png'', ''webp''} \<and>
          d = ''data:image/'' @ alt @ '';base64,'' @ rest)"

definition spec_size_within_limit :: "imageData \<Rightarrow> bool" where
  "spec_size_within_limit i = (\<forall>n. img_size i = Some n \<longrightarrow> n \<le> 10 * 1024 * 1024)"

definition spec_valid :: "imageData \<Rightarrow> bool" where
  "spec_valid i =
     (spec_name_present i \<and> spec_type_allowed i \<and> spec_data_matches i \<and>
      spec_size_within_limit i)"

text \<open>A payload that passes validation, and the same payload declaring 20 MiB.\<close>

definition good_image :: imageData where
  "good_image =
     \<lparr>img_name = Some ''front.png'', img_type = Some ''image/png'',
      img_data = Some ''data:image/png;base64,iVBORw0KGgo='', img_size = Some 2048\<rparr>"

definition oversized_image :: imageData where
  "oversized_image = good_image\<lparr>img_size := Some 20971520\<rparr>"

subsection \<open>Image batches\<close>

text \<open>
  Reading a batch result: whether one \<^verbatim>\<open>processImage\<close> result has \<^verbatim>\<open>success\<close> set, and the
  entry that \<^verbatim>\<open>processImages\<close> pushes for item \<open>i\<close> onto \<^verbatim>\<open>results\<close> or onto \<^verbatim>\<open>errors\<close>.
  \<open>ingest w uploadDir envs (i, imageData)\<close> is the result of item \<open>i\<close> of the batch.
\<close>

fun succeeded :: "image_result \<Rightarrow> bool" where
  "succeeded (Stored filename filepath sz originalName) = True"
| "succeeded (Invalid es) = False"
| "succeeded (Caught m) = False"

fun processed_entry :: "nat \<Rightarrow> image_result \<Rightarrow> processed list" where
  "processed_entry i (Stored filename filepath sz originalName) =
     [Processed i filename filepath sz originalName]"
| "processed_entry i (Invalid es) = []"
| "processed_entry i (Caught m) = []"

fun failure_entry :: "nat \<Rightarrow> imageData \<Rightarrow> image_result \<Rightarrow> failure list" where
  "failure_entry i imageData (Stored filename filepath sz originalName) = []"
| "failure_entry i imageData (Invalid es) = [Failure i (img_name imageData) es]"
| "failure_entry i imageData (Caught m) = [Failure i (img_name imageData) [m]]"

definition ingest :: "world \<Rightarrow> string \<Rightarrow> (nat \<Rightarrow> ingest_env) \<Rightarrow> nat \<times> imageData \<Rightarrow> image_result" where
  "ingest w uploadDir envs item = fst (processImage w (snd item) uploadDir (envs (fst item)))"

text \<open>Environment readings for a batch in which the file system never fails.\<close>

definition sample_envs :: "nat \<Rightarrow> ingest_env" where
  "sample_envs i =
     \<lparr>timestamp = 1700000000000 + i, randomString = ''00112233aabbccdd'',
      path_extname = ''.png'', buffer_length = 8, thrown = None\<rparr>"

definition empty_world :: world where
  "empty_world =
     \<lparr>properties_file = Missing, disk_writable = True, console_error = [], uploads = []\<rparr>"

definition sample_form :: obj where
  "sample_form =
     [''title'' \<mapsto> JStr ''Garden flat'', ''propertyType'' \<mapsto> JStr ''Flat'',
      ''location'' \<mapsto> JStr ''Leeds city centre'', ''price'' \<mapsto> JNum 1500,
      ''beds'' \<mapsto> JNum 2, ''baths'' \<mapsto> JNum 1]"

definition sample_create_env :: create_env where
  "sample_create_env =
     \<lparr>date_now = 1700000000000, math_random = ''0.4fzyo82mvyr'',
      created_iso = ''2023-11-14T22:13:20.000Z'', updated_iso = ''2023-11-14T22:13:20.000Z''\<rparr>"

definition request_with_oversized_image :: propertyData where
  "request_with_oversized_image =
     \<lparr>form = sample_form, images = Some [good_image, oversized_image]\<rparr>"

subsection \<open>Update\<close>

text \<open>
  A stored record, the store that holds only it, and the field of the record that
  \<^verbatim>\<open>updateProperty\<close> returned (\<open>None\<close> when it returned no record).
\<close>

definition listed_flat :: obj where
  "listed_flat =
     sample_form
       (''id'' \<mapsto> JStr ''PROP_1700000000000_4fzyo82mv'',
        ''createdAt'' \<mapsto> JStr ''2023-11-14T22:13:20.000Z'',
        ''updatedAt'' \<mapsto> JStr ''2023-11-14T22:13:20.000Z'')"

definition one_flat :: world where
  "one_flat =
     \<lparr>properties_file = Json [listed_flat], disk_writable = True, console_error = [],
      uploads = []\<rparr>"

definition returned_field :: "exn + obj option \<Rightarrow> string \<Rightarrow> jsval option" where
  "returned_field res k = (case res of Inr (Some r) \<Rightarrow> r k | _ \<Rightarrow> None)"

subsection \<open>Search\<close>

text \<open>
  The folding of the engine on ASCII text, where it turns the letters A to Z into a to z
  and leaves every other character alone. The examples below hold ASCII text only.
\<close>

definition lower_char :: "char \<Rightarrow> char" where
  "lower_char c =
     (case map_of (zip ''ABCDEFGHIJKLMNOPQRSTUVWXYZ'' ''abcdefghijklmnopqrstuvwxyz'') c of
        Some l \<Rightarrow> l
      | None \<Rightarrow> c)"

definition ascii_toLowerCase :: "string \<Rightarrow> string" where
  "ascii_toLowerCase s = map lower_char s"

text \<open>
  \<open>ci_contains toLowerCase s t\<close>: \<open>t\<close> is a substring of \<open>s\<close> once both are folded.
  \<open>spec_matches\<close> is the search contract as the specification words it: every criterion
  that the filter set carries is applied.
\<close>

definition ci_contains :: "(string \<Rightarrow> string) \<Rightarrow> string \<Rightarrow> string \<Rightarrow> bool" where
  "ci_contains toLowerCase s t = (\<exists>pre post. toLowerCase s = pre @ toLowerCase t @ post)"

definition spec_matches :: "(string \<Rightarrow> string) \<Rightarrow> filters \<Rightarrow> obj \<Rightarrow> bool" where
  "spec_matches toLowerCase f p =
     ((\<forall>t. propertyType f = Some t \<longrightarrow>
          (\<exists>s. p ''propertyType'' = Some (JStr s) \<and> ci_contains toLowerCase s t)) \<and>
      (\<forall>t. location f = Some t \<longrightarrow>
          (\<exists>s. p ''location'' = Some (JStr s) \<and> ci_contains toLowerCase s t)) \<and>
      (\<forall>n. minPrice f = Some n \<longrightarrow> (\<exists>x. p ''price'' = Some (JNum x) \<and> n \<le> x)) \<and>
      (\<forall>n. maxPrice f = Some n \<longrightarrow> (\<exists>x. p ''price'' = Some (JNum x) \<and> x \<le> n)) \<and>
      (\<forall>n. beds f = Some n \<longrightarrow> (\<exists>x. p ''beds'' = Some (JNum x) \<and> n \<le> x)) \<and>
      (\<forall>n. baths f = Some n \<longrightarrow> (\<exists>x. p ''baths'' = Some (JNum x) \<and> n \<le> x)))"

text \<open>
  The search contract of the code. A criterion counts when its value is truthy: the empty
  string and the number 0 count as not given. \<open>str_criterion\<close>, \<open>min_criterion\<close> and
  \<open>max_criterion\<close> say what one criterion asks of one field of a record. The code applies
  the criteria in the order type, location, minimum price, maximum price, beds, baths:
  \<open>meets_type\<close> to \<open>meets_beds\<close> say that a record meets the criteria up to and including
  the one named, and \<open>matches\<close> that it meets all six.
\<close>

definition str_criterion ::
  "(string \<Rightarrow> string) \<Rightarrow> string \<Rightarrow> string option \<Rightarrow> obj \<Rightarrow> bool" where
  "str_criterion toLowerCase field v p =
     (\<forall>t. v = Some t \<and> t \<noteq> [] \<longrightarrow>
          (\<exists>s. p field = Some (JStr s) \<and> ci_contains toLowerCase s t))"

definition min_criterion :: "string \<Rightarrow> rat option \<Rightarrow> obj \<Rightarrow> bool" where
  "min_criterion field v p =
     (\<forall>n. v = Some n \<and> n \<noteq> 0 \<longrightarrow> (\<exists>x. p field = Some (JNum x) \<and> n \<le> x))"

definition max_criterion :: "string \<Rightarrow> rat option \<Rightarrow> obj \<Rightarrow> bool" where
  "max_criterion field v p =
     (\<forall>n. v = Some n \<and> n \<noteq> 0 \<longrightarrow> (\<exists>x. p field = Some (JNum x) \<and> x \<le> n))"

definition meets_type :: "(string \<Rightarrow> string) \<Rightarrow> filters \<Rightarrow> obj \<Rightarrow> bool" where
  "meets_type toLowerCase f p = str_criterion toLowerCase ''propertyType'' (propertyType f) p"

definition meets_location :: "(string \<Rightarrow> string) \<Rightarrow> filters \<Rightarrow> obj \<Rightarrow> bool" where
  "meets_location toLowerCase f p =
     (meets_type toLowerCase f p \<and> str_criterion toLowerCase ''location'' (location f) p)"

definition meets_minPrice :: "(string \<Rightarrow> string) \<Rightarrow> filters \<Rightarrow> obj \<Rightarrow> bool" where
  "meets_minPrice toLowerCase f p =
     (meets_location toLowerCase f p \<and> min_criterion ''price'' (minPrice f) p)"

definition meets_maxPrice :: "(string \<Rightarrow> string) \<Rightarrow> filters \<Rightarrow> obj \<Rightarrow> bool" where
  "meets_maxPrice toLowerCase f p =
     (meets_minPrice toLowerCase f p \<and> max_criterion ''price'' (maxPrice f) p)"

definition meets_beds :: "(string \<Rightarrow> string) \<Rightarrow> filters \<Rightarrow> obj \<Rightarrow> bool" where
  "meets_beds toLowerCase f p =
     (meets_maxPrice toLowerCase f p \<and> min_criterion ''beds'' (beds f) p)"

definition matches :: "(string \<Rightarrow> string) \<Rightarrow> filters \<Rightarrow> obj \<Rightarrow> bool" where
  "matches toLowerCase f p =
     (meets_beds toLowerCase f p \<and> min_criterion ''baths'' (baths f) p)"

text \<open>
  \<open>readable\<close>: every field that the search comes to read of the record holds a value of
  the criterion's kind. A truthy criterion is evaluated on the records that meet the
  criteria before it; there the field it reads is a string, for type and location, and a
  number or absent, for price, beds and baths. Nothing is asked of a field that no truthy
  criterion reads, nor of a record that an earlier criterion has already dropped.
\<close>

definition is_string :: "jsval option \<Rightarrow> bool" where
  "is_string v = (\<exists>s. v = Some (JStr s))"

definition number_or_absent :: "jsval option \<Rightarrow> bool" where
  "number_or_absent v = (v = None \<or> (\<exists>x. v = Some (JNum x)))"

definition readable :: "(string \<Rightarrow> string) \<Rightarrow> filters \<Rightarrow> obj \<Rightarrow> bool" where
  "readable toLowerCase f p =
     ((truthy_str (propertyType f) \<longrightarrow> is_string (p ''propertyType'')) \<and>
      (truthy_str (location f) \<and> meets_type toLowerCase f p \<longrightarrow> is_string (p ''location'')) \<and>
      (truthy_num (minPrice f) \<and> meets_location toLowerCase f p \<longrightarrow>
         number_or_absent (p ''price'')) \<and>
      (truthy_num (maxPrice f) \<and> meets_minPrice toLowerCase f p \<longrightarrow>
         number_or_absent (p ''price'')) \<and>
      (truthy_num (beds f) \<and> meets_maxPrice toLowerCase f p \<longrightarrow>
         number_or_absent (p ''beds'')) \<and>
      (truthy_num (baths f) \<and> meets_beds toLowerCase f p \<longrightarrow>
         number_or_absent (p ''baths'')))"

definition no_filters :: filters where
  "no_filters =
     \<lparr>propertyType = None, location = None, minPrice = None, maxPrice = None, beds = None,
      baths = None\<rparr>"

text \<open>
  Four listings with their type and price, a record that has a type and no location, and
  filter sets to search them with.
\<close>

definition listing :: "string \<Rightarrow> string \<Rightarrow> rat \<Rightarrow> obj" where
  "listing ident kind amount =
     sample_form (''id'' \<mapsto> JStr ident, ''propertyType'' \<mapsto> JStr kind, ''price'' \<mapsto> JNum amount)"

definition four_listings :: world where
  "four_listings =
     \<lparr>properties_file =
        Json [listing ''PROP_1_a'' ''Flat'' 1500, listing ''PROP_2_b'' ''House'' 1200,
              listing ''PROP_3_c'' ''Flat'' 2500, listing ''PROP_4_d'' ''Flat'' 1000],
      disk_writable = True, console_error = [], uploads = []\<rparr>"

definition bare_house :: obj where
  "bare_house = [''id'' \<mapsto> JStr ''PROP_5_e'', ''propertyType'' \<mapsto> JStr ''House'']"

definition flat_and_bare_house :: world where
  "flat_and_bare_house =
     \<lparr>properties_file = Json [listed_flat, bare_house], disk_writable = True,
      console_error = [], uploads = []\<rparr>"

definition flats_1000_to_2000 :: filters where
  "flats_1000_to_2000 =
     no_filters\<lparr>propertyType := Some ''flat'', minPrice := Some 1000, maxPrice := Some 2000\<rparr>"

definition flats_in_leeds :: filters where
  "flats_in_leeds = no_filters\<lparr>propertyType := Some ''flat'', location := Some ''LEEDS''\<rparr>"

definition max_price_zero :: filters where
  "max_price_zero = no_filters\<lparr>maxPrice := Some 0\<rparr>"

definition flats_only :: filters where
  "flats_only = no_filters\<lparr>propertyType := Some ''flat''\<rparr>"

definition flats_up_to_zero :: filters where
  "flats_up_to_zero = no_filters\<lparr>propertyType := Some ''flat'', maxPrice := Some 0\<rparr>"

subsection \<open>Histories\<close>

text \<open>
  Histories of the store. A history is a list of calls of \<^verbatim>\<open>saveProperty\<close>,
  \<^verbatim>\<open>updateProperty\<close> and \<^verbatim>\<open>deleteProperty\<close>, each with what the environment hands to it;
  \<open>run\<close> makes the calls one after the other on the state the call before left behind.
  The identity of a record is its \<^verbatim>\<open>id\<close> with its \<^verbatim>\<open>createdAt\<close>. \<open>assigned\<close> is the identity
  a call creates, \<open>keeps_identity\<close> says that the attributes given to a call carry no
  \<^verbatim>\<open>id\<close> key and, for an update, no \<^verbatim>\<open>createdAt\<close> key (the request schema strips both), and
  \<open>identities_after\<close> is the list of stored identities that the call should leave.
\<close>

datatype operation =
    Create obj create_env
  | Update string obj string
  | Delete string

fun perform :: "world \<Rightarrow> operation \<Rightarrow> world" where
  "perform w (Create propertyData env) = snd (saveProperty w propertyData env)"
| "perform w (Update ident updateData now_iso) = snd (updateProperty w ident updateData now_iso)"
| "perform w (Delete ident) = snd (deleteProperty w ident)"

fun run :: "world \<Rightarrow> operation list \<Rightarrow> world" where
  "run w [] = w"
| "run w (op # ops) = run (perform w op) ops"

type_synonym identity = "jsval option \<times> jsval option"

definition identity_of :: "obj \<Rightarrow> identity" where
  "identity_of p = (p ''id'', p ''createdAt'')"

definition stored_identities :: "world \<Rightarrow> identity list" where
  "stored_identities w = map identity_of (fst (readProperties w))"

fun assigned :: "operation \<Rightarrow> identity list" where
  "assigned (Create propertyData env) =
     [(Some (JStr (propertyId env)), Some (JStr (created_iso env)))]"
| "assigned (Update ident updateData now_iso) = []"
| "assigned (Delete ident) = []"

fun keeps_identity :: "operation \<Rightarrow> bool" where
  "keeps_identity (Create propertyData env) = (propertyData ''id'' = None)"
| "keeps_identity (Update ident updateData now_iso) =
     (updateData ''id'' = None \<and> updateData ''createdAt'' = None)"
| "keeps_identity (Delete ident) = True"

fun identities_after :: "world \<Rightarrow> operation \<Rightarrow> identity list" where
  "identities_after w (Create propertyData env) =
     (if disk_writable w then stored_identities w @ assigned (Create propertyData env)
      else stored_identities w)"
| "identities_after w (Update ident updateData now_iso) = stored_identities w"
| "identities_after w (Delete ident) =
     (if disk_writable w
      then filter (\<lambda>i. fst i \<noteq> Some (JStr ident)) (stored_identities w)
      else stored_identities w)"

text \<open>
  A history of two creations, an update and a deletion, and an update whose attributes
  carry an \<^verbatim>\<open>id\<close> and a \<^verbatim>\<open>createdAt\<close>.
\<close>

definition second_create_env :: create_env where
  "second_create_env =
     \<lparr>date_now = 1700000000001, math_random = ''0.k2j9x7q1w8e'',
      created_iso = ''2023-11-14T22:13:20.001Z'', updated_iso = ''2023-11-14T22:13:20.001Z''\<rparr>"

definition history :: "operation list" where
  "history =
     [Create sample_form sample_create_env,
      Create sample_form second_create_env,
      Update ''PROP_1700000000000_4fzyo82mv'' [''price'' \<mapsto> JNum 500]
        ''2024-02-01T09:00:00.000Z'',
      Delete ''PROP_1700000000000_4fzyo82mv'']"

definition overwrite_identity :: operation where
  "overwrite_identity =
     Update ''PROP_1700000000000_4fzyo82mv''
       [''id'' \<mapsto> JStr ''PROP_2_b'', ''createdAt'' \<mapsto> JStr ''1999-01-01T00:00:00.000Z'']
       ''2024-02-01T09:00:00.000Z''"

section \<open>Facts about the store\<close>

lemma filter_length_eq_iff: "length (filter P xs) = length xs \<longleftrightarrow> (\<forall>x \<in> set xs. P x)"
  by (metis filter_id_conv length_filter_less less_irrefl)

text \<open>
  C8. Loading never raises: every throw inside \<^verbatim>\<open>readProperties\<close> is caught, so the function
  returns a collection for every state of the disk. When the file is absent it returns the
  empty collection and prints nothing. When the file cannot be read or parsed it prints
  \<^verbatim>\<open>Error reading properties:\<close> on the error console and returns the empty collection,
  leaving the file as it is.
\<close>

theorem readProperties_recovers:
  "(properties_file w = Missing \<longrightarrow> readProperties w = ([], w)) \<and>
   (properties_file w = Malformed \<or> properties_file w = Unreadable \<longrightarrow>
      readProperties w =
        ([], w\<lparr>console_error := console_error w @ [''Error reading properties:'']\<rparr>)) \<and>
   (\<forall>e. readProperties_try w = Inl e \<longrightarrow>
      fst (readProperties w) = [] \<and>
      properties_file (snd (readProperties w)) = properties_file w \<and>
      console_error (snd (readProperties w)) =
        console_error w @ [''Error reading properties:''])"
  by (auto simp: readProperties_def readProperties_try_def split: disk_file.splits)

theorem readProperties_recovers_witness:
  "readProperties \<lparr>properties_file = Missing, disk_writable = True, console_error = [],
                    uploads = []\<rparr> =
     ([], \<lparr>properties_file = Missing, disk_writable = True, console_error = [], uploads = []\<rparr>) \<and>
   readProperties \<lparr>properties_file = Malformed, disk_writable = True, console_error = [],
                    uploads = []\<rparr> =
     ([], \<lparr>properties_file = Malformed, disk_writable = True,
           console_error = [''Error reading properties:''], uploads = []\<rparr>)"
  using readProperties_recovers
          [of "\<lparr>properties_file = Missing, disk_writable = True, console_error = [],
                uploads = []\<rparr>"]
        readProperties_recovers
          [of "\<lparr>properties_file = Malformed, disk_writable = True, console_error = [],
                uploads = []\<rparr>"]
  by simp

text \<open>
  C7. \<^verbatim>\<open>deleteProperty\<close> returns true exactly when a record with the id was in the
  collection and the reduced collection was written. After it returns true the file holds
  the collection without the records of that id, \<^verbatim>\<open>getPropertyById\<close> on the id finds
  nothing, and a second \<^verbatim>\<open>deleteProperty\<close> on the id returns false. Whenever it returns
  false, which covers an id that is not in the collection, the file is unchanged.
\<close>

theorem deleteProperty_removes:
  "(fst (deleteProperty w ident) \<longleftrightarrow>
      (\<exists>p \<in> set (fst (readProperties w)). has_id ident p) \<and> disk_writable w) \<and>
   (fst (deleteProperty w ident) \<longrightarrow>
      properties_file (snd (deleteProperty w ident)) =
        Json (filter (\<lambda>prop. \<not> has_id ident prop) (fst (readProperties w))) \<and>
      fst (getPropertyById (snd (deleteProperty w ident)) ident) = None \<and>
      fst (deleteProperty (snd (deleteProperty w ident)) ident) = False) \<and>
   (\<not> fst (deleteProperty w ident) \<longrightarrow>
      properties_file (snd (deleteProperty w ident)) = properties_file w)"
  by (cases "readProperties w")
    (auto simp: deleteProperty_def getPropertyById_def Let_def filter_length_eq_iff
      writeProperties_def find_None_iff readProperties_def readProperties_try_def
      split: prod.splits if_splits sum.splits disk_file.splits)

theorem deleteProperty_removes_witness:
  "fst (deleteProperty two_records ''PROP_1_a'') \<and>
   fst (getPropertyById (snd (deleteProperty two_records ''PROP_1_a'')) ''PROP_1_a'') = None \<and>
   fst (deleteProperty (snd (deleteProperty two_records ''PROP_1_a'')) ''PROP_1_a'') = False \<and>
   \<not> fst (deleteProperty two_records ''PROP_9_z'') \<and>
   properties_file (snd (deleteProperty two_records ''PROP_9_z'')) =
     properties_file two_records"
proof -
  have present: "fst (deleteProperty two_records ''PROP_1_a'')"
    by (simp add: two_records_def deleteProperty_def readProperties_def readProperties_try_def
        has_id_def writeProperties_def)
  have absent: "\<not> fst (deleteProperty two_records ''PROP_9_z'')"
    by (simp add: two_records_def deleteProperty_def readProperties_def readProperties_try_def
        has_id_def writeProperties_def)
  show ?thesis
    using present absent deleteProperty_removes [of two_records "''PROP_1_a''"]
      deleteProperty_removes [of two_records "''PROP_9_z''"]
    by blast
qed

section \<open>Facts about image validation\<close>

lemma isValid_iff:
  "isValid (validateImageData i) \<longleftrightarrow>
     truthy_str (img_name i) \<and>
     truthy_str (img_type i) \<and> img_type i \<in> Some ` set allowedTypes \<and>
     truthy_str (img_data i) \<and>
     (case img_data i of Some d \<Rightarrow> base64Regex_test d | None \<Rightarrow> False) \<and>
     \<not> (truthy_num (img_size i) \<and>
        (case img_size i of Some n \<Rightarrow> n > 10 * 1024 * 1024 | None \<Rightarrow> False))"
  by (simp add: validateImageData_def Let_def)

lemma invalid_has_errors:
  "\<not> isValid (validateImageData i) \<Longrightarrow> validation_errors (validateImageData i) \<noteq> []"
  by (simp add: validateImageData_def Let_def)

lemma name_rule: "truthy_str (img_name i) = spec_name_present i"
  by (auto simp: truthy_str_def spec_name_present_def split: option.splits)

lemma type_rule:
  "(truthy_str (img_type i) \<and> img_type i \<in> Some ` set allowedTypes) = spec_type_allowed i"
  by (auto simp: truthy_str_def spec_type_allowed_def allowedTypes_def split: option.splits)

lemma list_ex_prefix4:
  "list_ex (\<lambda>alt. prefix (p @ alt @ s) d) [a, b, c, e] \<longleftrightarrow>
     (\<exists>alt rest. alt \<in> {a, b, c, e} \<and> d = p @ alt @ s @ rest)"
  by (auto simp: prefix_def)

lemma base64Regex_test_iff:
  "base64Regex_test d \<longleftrightarrow>
     (\<exists>alt rest. alt \<in> {''jpeg'', ''jpg'', ''png'', ''webp''} \<and>
        d = ''data:image/'' @ alt @ '';base64,'' @ rest)"
  unfolding base64Regex_test_def by (rule list_ex_prefix4)

lemma data_rule:
  "(truthy_str (img_data i) \<and>
    (case img_data i of Some d \<Rightarrow> base64Regex_test d | None \<Rightarrow> False)) = spec_data_matches i"
  unfolding spec_data_matches_def truthy_str_def base64Regex_test_iff
  by (cases "img_data i") auto

lemma size_rule:
  "(\<not> (truthy_num (img_size i) \<and>
       (case img_size i of Some n \<Rightarrow> n > 10 * 1024 * 1024 | None \<Rightarrow> False))) =
   spec_size_within_limit i"
  by (auto simp: truthy_num_def spec_size_within_limit_def split: option.splits)

text \<open>
  C5. \<^verbatim>\<open>validateImageData\<close> accepts a payload exactly when the four rules of the
  specification hold of it, and a rejected payload carries at least one error message.
\<close>

theorem validateImageData_meets_rules:
  "(isValid (validateImageData i) \<longleftrightarrow> spec_valid i) \<and>
   (\<not> isValid (validateImageData i) \<longrightarrow> validation_errors (validateImageData i) \<noteq> [])"
  using name_rule [of i] type_rule [of i] data_rule [of i] size_rule [of i]
    invalid_has_errors [of i]
  unfolding isValid_iff spec_valid_def by blast

theorem validateImageData_meets_rules_witness:
  "spec_valid good_image \<and> \<not> spec_valid oversized_image \<and>
   validation_errors (validateImageData oversized_image) \<noteq> []"
proof -
  have good: "isValid (validateImageData good_image)"
    by (simp add: validateImageData_def good_image_def truthy_str_def truthy_num_def
        allowedTypes_def base64Regex_test_def)
  have bad: "\<not> isValid (validateImageData oversized_image)"
    by (simp add: validateImageData_def good_image_def oversized_image_def truthy_str_def
        truthy_num_def allowedTypes_def base64Regex_test_def)
  show ?thesis
    using good bad validateImageData_meets_rules [of good_image]
      validateImageData_meets_rules [of oversized_image]
    by blast
qed

section \<open>Facts about the image batch\<close>

lemma processImage_result_indep:
  "fst (processImage w imageData uploadDir env) = fst (processImage w' imageData uploadDir env)"
  by (simp add: processImage_def Let_def split: option.splits)

lemma ingest_indep: "ingest w uploadDir envs = ingest w' uploadDir envs"
  unfolding ingest_def using processImage_result_indep by (intro ext) auto

lemma processImage_world:
  "snd (processImage w imageData uploadDir env) =
     w\<lparr>uploads := uploads w @
         map p_filepath (processed_entry i (fst (processImage w imageData uploadDir env)))\<rparr>"
  by (simp add: processImage_def Let_def split: option.splits)

lemma processImages_loop_eq:
  "processImages_loop w imgs uploadDir envs i results errs =
     ((results @ concat (map (\<lambda>item. processed_entry (fst item) (ingest w uploadDir envs item))
                          (enumerate i imgs)),
       errs @ concat (map (\<lambda>item. failure_entry (fst item) (snd item) (ingest w uploadDir envs item))
                       (enumerate i imgs))),
      w\<lparr>uploads := uploads w @
          map p_filepath
            (concat (map (\<lambda>item. processed_entry (fst item) (ingest w uploadDir envs item))
                      (enumerate i imgs)))\<rparr>)"
proof (induction imgs arbitrary: w i results errs)
  case Nil
  then show ?case by simp
next
  case (Cons imageData rest)
  obtain r w' where step: "processImage w imageData uploadDir (envs i) = (r, w')"
    by (cases "processImage w imageData uploadDir (envs i)")
  have r: "ingest w uploadDir envs (i, imageData) = r"
    using step by (simp add: ingest_def)
  have w': "w' = w\<lparr>uploads := uploads w @ map p_filepath (processed_entry i r)\<rparr>"
    using processImage_world [of w imageData uploadDir "envs i" i] step by simp
  have same: "\<And>u. ingest (w\<lparr>uploads := u\<rparr>) uploadDir envs = ingest w uploadDir envs"
    by (rule ingest_indep)
  show ?case
    by (cases r) (simp_all add: step Cons.IH same r w')
qed



lemma failure_entry_Nil: "failure_entry k img r = [] \<longleftrightarrow> succeeded r"
  by (cases r) simp_all

lemma processImages_eq:
  "processImages w imgs uploadDir envs =
     (\<lparr>success = (\<forall>item \<in> set (enumerate 0 imgs). succeeded (ingest w uploadDir envs item)),
       processedImages =
         concat (map (\<lambda>item. processed_entry (fst item) (ingest w uploadDir envs item))
                   (enumerate 0 imgs)),
       errors =
         concat (map (\<lambda>item. failure_entry (fst item) (snd item) (ingest w uploadDir envs item))
                   (enumerate 0 imgs))\<rparr>,
      w\<lparr>uploads := uploads w @
          map p_filepath
            (concat (map (\<lambda>item. processed_entry (fst item) (ingest w uploadDir envs item))
                      (enumerate 0 imgs)))\<rparr>)"
  by (cases "imgs = []")
    (auto simp: processImages_def processImages_loop_eq Let_def failure_entry_Nil)



lemma oversized_image_errors:
  "validateImageData oversized_image =
     \<lparr>isValid = False, validation_errors = [''Image size cannot exceed 10MB'']\<rparr>"
  by (simp add: validateImageData_def good_image_def oversized_image_def truthy_str_def
      truthy_num_def allowedTypes_def base64Regex_test_def)


lemma processImages_file:
  "properties_file (snd (processImages w imgs uploadDir envs)) = properties_file w"
  by (simp add: processImages_eq)

lemma invalid_not_succeeded:
  "\<not> isValid (validateImageData img) \<Longrightarrow>
   fst (processImage w img uploadDir env) = Invalid (validation_errors (validateImageData img))"
  by (simp add: processImage_def)

text \<open>
  C1. When a request carries an image that fails validation, \<^verbatim>\<open>addProperty\<close> answers with the
  image-processing failure and leaves the properties file as it was; the failure lists, for
  every image of the request that fails validation, its index, its name and its validation
  messages, of which there is at least one.
\<close>

theorem addProperty_rejects_failing_images:
  assumes imgs: "images propertyData = Some imgs"
    and i: "i < length imgs"
    and bad: "\<not> isValid (validateImageData (imgs ! i))"
  shows "\<exists>errs w'.
           addProperty w propertyData envs env = (ImageProcessingFailed errs, w') \<and>
           properties_file w' = properties_file w \<and>
           (\<forall>j < length imgs. \<not> isValid (validateImageData (imgs ! j)) \<longrightarrow>
              Failure j (img_name (imgs ! j))
                (validation_errors (validateImageData (imgs ! j))) \<in> set errs \<and>
              validation_errors (validateImageData (imgs ! j)) \<noteq> [])"
proof -
  let ?r = "fst (processImages w imgs ''uploads/images'' envs)"
  let ?w1 = "snd (processImages w imgs ''uploads/images'' envs)"
  have mem: "(j, imgs ! j) \<in> set (enumerate 0 imgs)" if "j < length imgs" for j
    using that by (simp add: in_set_enumerate_eq)
  have inv: "ingest w ''uploads/images'' envs (j, imgs ! j) =
      Invalid (validation_errors (validateImageData (imgs ! j)))"
    if "\<not> isValid (validateImageData (imgs ! j))" for j
    using that by (simp add: ingest_def invalid_not_succeeded)
  have "\<not> succeeded (ingest w ''uploads/images'' envs (i, imgs ! i))"
    using inv [OF bad] by simp
  then have fail: "\<not> success ?r"
    using mem [OF i] by (auto simp: processImages_eq)
  have listed: "Failure j (img_name (imgs ! j))
        (validation_errors (validateImageData (imgs ! j))) \<in> set (errors ?r)"
    if "j < length imgs" and "\<not> isValid (validateImageData (imgs ! j))" for j
  proof -
    have "failure_entry j (imgs ! j) (ingest w ''uploads/images'' envs (j, imgs ! j)) =
        [Failure j (img_name (imgs ! j)) (validation_errors (validateImageData (imgs ! j)))]"
      using inv [OF that(2)] by simp
    then show ?thesis
      using mem [OF that(1)] by (force simp: processImages_eq)
  qed
  have pos: "length imgs > 0" using i by auto
  have "addProperty w propertyData envs env =
      (ImageProcessingFailed (errors ?r),
       ?w1\<lparr>console_error := console_error ?w1 @ [''Image processing errors:'']\<rparr>)"
    using fail pos imgs
    by (cases "processImages w imgs ''uploads/images'' envs") (simp add: addProperty_def)
  then show ?thesis
    using listed invalid_has_errors by (auto simp: processImages_file)
qed

theorem addProperty_rejects_failing_images_witness:
  "\<exists>errs w'.
     addProperty empty_world request_with_oversized_image sample_envs sample_create_env =
       (ImageProcessingFailed errs, w') \<and>
     properties_file w' = Missing \<and>
     Failure 1 (Some ''front.png'') [''Image size cannot exceed 10MB''] \<in> set errs"
proof -
  have imgs: "images request_with_oversized_image = Some [good_image, oversized_image]"
    by (simp add: request_with_oversized_image_def)
  have i: "(1::nat) < length [good_image, oversized_image]"
    by simp
  have bad: "\<not> isValid (validateImageData ([good_image, oversized_image] ! 1))"
    by (simp add: oversized_image_errors)
  have name: "img_name oversized_image = Some ''front.png''"
    by (simp add: oversized_image_def good_image_def)
  show ?thesis
    using addProperty_rejects_failing_images
      [OF imgs i bad, of empty_world sample_envs sample_create_env]
    by (auto simp: oversized_image_errors name empty_world_def)
qed

section \<open>Facts about update\<close>

lemma findIndex_None_iff: "findIndex P xs = None \<longleftrightarrow> (\<forall>x \<in> set xs. \<not> P x)"
  by (induction xs) (auto split: option.splits)

lemma findIndex_Some:
  "findIndex P xs = Some i \<Longrightarrow> i < length xs \<and> P (xs ! i) \<and> (\<forall>j < i. \<not> P (xs ! j))"
proof (induction xs arbitrary: i)
  case Nil
  then show ?case by simp
next
  case (Cons x xs)
  show ?case
  proof (cases "P x")
    case True
    with Cons.prems show ?thesis by simp
  next
    case False
    with Cons.prems obtain k where k: "findIndex P xs = Some k" "i = Suc k"
      by (auto split: option.splits)
    from Cons.IH [OF k(1)] False k(2) show ?thesis
      by (auto simp: less_Suc_eq_0_disj)
  qed
qed

lemma readProperties_snd_file: "properties_file (snd (readProperties w)) = properties_file w"
  by (simp add: readProperties_def split: sum.splits)

lemma readProperties_snd_writable: "disk_writable (snd (readProperties w)) = disk_writable w"
  by (simp add: readProperties_def split: sum.splits)

text \<open>
  C3, as the code has it. \<^verbatim>\<open>updateProperty\<close> returns \<^verbatim>\<open>null\<close> and leaves the file alone when
  no record has the id. Otherwise it takes the first record with the id and, when the write
  succeeds, returns and stores in its place the record in which every supplied key has the
  supplied value, every other key keeps its value, and \<^verbatim>\<open>updatedAt\<close> is the clock reading
  of the call; the rest of the collection is written back unchanged. When the write fails
  it throws \<^verbatim>\<open>Failed to update property\<close> and the file is unchanged. The new \<^verbatim>\<open>updatedAt\<close>
  is whatever the clock says: nothing makes it greater than the one before.
\<close>

theorem updateProperty_merges:
  assumes ps: "fst (readProperties w) = ps"
  shows
    "((\<forall>p \<in> set ps. \<not> has_id ident p) \<longrightarrow>
        fst (updateProperty w ident updateData now_iso) = Inr None \<and>
        properties_file (snd (updateProperty w ident updateData now_iso)) = properties_file w) \<and>
     ((\<exists>p \<in> set ps. has_id ident p) \<and> disk_writable w \<longrightarrow>
        (\<exists>i r. i < length ps \<and> has_id ident (ps ! i) \<and> (\<forall>j < i. \<not> has_id ident (ps ! j)) \<and>
           fst (updateProperty w ident updateData now_iso) = Inr (Some r) \<and>
           (\<forall>k. r k =
              (if k = ''updatedAt'' then Some (JStr now_iso)
               else case updateData k of Some v \<Rightarrow> Some v | None \<Rightarrow> (ps ! i) k)) \<and>
           properties_file (snd (updateProperty w ident updateData now_iso)) =
             Json (ps[i := r]))) \<and>
     ((\<exists>p \<in> set ps. has_id ident p) \<and> \<not> disk_writable w \<longrightarrow>
        fst (updateProperty w ident updateData now_iso) =
          Inl (Error ''Failed to update property'') \<and>
        properties_file (snd (updateProperty w ident updateData now_iso)) = properties_file w)"
proof -
  obtain w1 where rd: "readProperties w = (ps, w1)"
    using ps by (cases "readProperties w") simp
  have w1: "properties_file w1 = properties_file w" "disk_writable w1 = disk_writable w"
    using readProperties_snd_file [of w] readProperties_snd_writable [of w] rd by simp_all
  show ?thesis
  proof (cases "findIndex (has_id ident) ps")
    case None
    then have "\<forall>p \<in> set ps. \<not> has_id ident p"
      by (simp add: findIndex_None_iff)
    then show ?thesis
      using None rd w1 by (simp add: updateProperty_def)
  next
    case (Some i)
    note found = findIndex_Some [OF Some]
    let ?r = "((ps ! i) ++ updateData)(''updatedAt'' \<mapsto> JStr now_iso)"
    have ex: "\<exists>p \<in> set ps. has_id ident p"
      using found by auto
    have merged: "?r k = (if k = ''updatedAt'' then Some (JStr now_iso)
        else case updateData k of Some v \<Rightarrow> Some v | None \<Rightarrow> (ps ! i) k)" for k
      by (simp add: map_add_def split: option.splits)
    show ?thesis
    proof (cases "disk_writable w")
      case True
      have res: "updateProperty w ident updateData now_iso =
          (Inr (Some ?r), w1\<lparr>properties_file := Json (ps[i := ?r])\<rparr>)"
        using Some rd w1 True found by (simp add: updateProperty_def writeProperties_def Let_def)
      show ?thesis
        using ex True found merged unfolding res by (intro conjI impI) auto
    next
      case False
      then show ?thesis
        using Some rd w1 ex by (simp add: updateProperty_def writeProperties_def Let_def)
    qed
  qed
qed

theorem updateProperty_merges_witness:
  "returned_field (fst (updateProperty one_flat ''PROP_1700000000000_4fzyo82mv''
      [''price'' \<mapsto> JNum 500] ''2024-02-01T09:00:00.000Z'')) ''price'' = Some (JNum 500) \<and>
   returned_field (fst (updateProperty one_flat ''PROP_1700000000000_4fzyo82mv''
      [''price'' \<mapsto> JNum 500] ''2024-02-01T09:00:00.000Z'')) ''beds'' = Some (JNum 2) \<and>
   returned_field (fst (updateProperty one_flat ''PROP_1700000000000_4fzyo82mv''
      [''price'' \<mapsto> JNum 500] ''2024-02-01T09:00:00.000Z'')) ''updatedAt'' =
     Some (JStr ''2024-02-01T09:00:00.000Z'') \<and>
   fst (updateProperty one_flat ''PROP_0_none'' [''price'' \<mapsto> JNum 500]
      ''2024-02-01T09:00:00.000Z'') = Inr None \<and>
   fst (updateProperty (one_flat\<lparr>disk_writable := False\<rparr>) ''PROP_1700000000000_4fzyo82mv''
      [''price'' \<mapsto> JNum 500] ''2024-02-01T09:00:00.000Z'') =
     Inl (Error ''Failed to update property'')"
proof -
  have rd: "fst (readProperties one_flat) = [listed_flat]"
    by (simp add: one_flat_def readProperties_def readProperties_try_def)
  have rd': "fst (readProperties (one_flat\<lparr>disk_writable := False\<rparr>)) = [listed_flat]"
    by (simp add: one_flat_def readProperties_def readProperties_try_def)
  have has: "has_id ''PROP_1700000000000_4fzyo82mv'' listed_flat"
    by (simp add: has_id_def listed_flat_def)
  have hasnt: "\<not> has_id ''PROP_0_none'' listed_flat"
    by (simp add: has_id_def listed_flat_def)
  have beds: "listed_flat ''beds'' = Some (JNum 2)"
    by (simp add: listed_flat_def sample_form_def)
  have wr: "disk_writable one_flat"
    by (simp add: one_flat_def)
  show ?thesis
    using updateProperty_merges [OF rd, of "''PROP_1700000000000_4fzyo82mv''"
        "[''price'' \<mapsto> JNum 500]" "''2024-02-01T09:00:00.000Z''"]
      updateProperty_merges [OF rd, of "''PROP_0_none''"
        "[''price'' \<mapsto> JNum 500]" "''2024-02-01T09:00:00.000Z''"]
      updateProperty_merges [OF rd', of "''PROP_1700000000000_4fzyo82mv''"
        "[''price'' \<mapsto> JNum 500]" "''2024-02-01T09:00:00.000Z''"]
      has hasnt beds wr
    by (auto simp: returned_field_def)
qed

text \<open>
  C3 as stated fails: an update made while the clock still shows the millisecond of the
  last change returns a record whose \<^verbatim>\<open>updatedAt\<close> equals the prior one, and an update on a
  disk that cannot be written returns no record at all.
\<close>

theorem updateProperty_updatedAt_counterexample:
  "listed_flat ''updatedAt'' = Some (JStr ''2023-11-14T22:13:20.000Z'') \<and>
   returned_field (fst (updateProperty one_flat ''PROP_1700000000000_4fzyo82mv''
      [''price'' \<mapsto> JNum 500] ''2023-11-14T22:13:20.000Z'')) ''updatedAt'' =
     Some (JStr ''2023-11-14T22:13:20.000Z'') \<and>
   fst (updateProperty (one_flat\<lparr>disk_writable := False\<rparr>) ''PROP_1700000000000_4fzyo82mv''
      [''price'' \<mapsto> JNum 500] ''2024-02-01T09:00:00.000Z'') =
     Inl (Error ''Failed to update property'')"
  by (simp add: returned_field_def updateProperty_def one_flat_def readProperties_def
      readProperties_try_def has_id_def listed_flat_def writeProperties_def Let_def)

section \<open>Facts about search\<close>

lemma str_includes_iff: "str_includes s t \<longleftrightarrow> (\<exists>pre post. s = pre @ t @ post)"
proof (induction s)
  case Nil
  then show ?case by simp
next
  case (Cons c s)
  show ?case
  proof
    assume "str_includes (c # s) t"
    then consider "prefix t (c # s)" | "str_includes s t" by auto
    then show "\<exists>pre post. c # s = pre @ t @ post"
    proof cases
      case 1
      then obtain post where "c # s = t @ post" by (auto simp: prefix_def)
      then have "c # s = [] @ t @ post" by simp
      then show ?thesis by blast
    next
      case 2
      then obtain pre post where "s = pre @ t @ post" using Cons.IH by auto
      then have "c # s = (c # pre) @ t @ post" by simp
      then show ?thesis by blast
    qed
  next
    assume "\<exists>pre post. c # s = pre @ t @ post"
    then obtain pre post where eq: "c # s = pre @ t @ post" by blast
    show "str_includes (c # s) t"
    proof (cases pre)
      case Nil
      with eq have "prefix t (c # s)" by (simp add: prefix_def)
      then show ?thesis by simp
    next
      case (Cons a pre')
      with eq have "s = pre' @ t @ post" by simp
      then have "str_includes s t" using Cons.IH by blast
      then show ?thesis by simp
    qed
  qed
qed

lemma ci_contains_includes:
  "ci_contains toLowerCase s t = str_includes (toLowerCase s) (toLowerCase t)"
  by (simp add: ci_contains_def str_includes_iff)

text \<open>
  The match is insensitive to case in this sense: it depends on the two strings only
  through what \<open>toLowerCase\<close> makes of them.
\<close>

lemma ci_contains_folded:
  "toLowerCase s = toLowerCase s' \<Longrightarrow> toLowerCase t = toLowerCase t' \<Longrightarrow>
   ci_contains toLowerCase s t = ci_contains toLowerCase s' t'"
  by (simp add: ci_contains_def)

lemma filter_exn_total:
  "\<forall>x \<in> set xs. P x = Inr (Q x) \<Longrightarrow> filter_exn P xs = Inr (filter Q xs)"
  by (induction xs) simp_all

lemma includes_filter_string:
  "p field = Some (JStr s) \<Longrightarrow>
   includes_filter toLowerCase field t p = Inr (ci_contains toLowerCase s t)"
  by (simp add: includes_filter_def field_toLowerCase_def ci_contains_includes)

lemma field_ge_number: "field_ge (Some (JNum x)) n = Inr (n \<le> x)"
  by (simp add: field_ge_def)

lemma field_le_number: "field_le (Some (JNum x)) n = Inr (x \<le> n)"
  by (simp add: field_le_def)

lemma field_absent: "field_ge None n = Inr False" "field_le None n = Inr False"
  by (simp_all add: field_ge_def field_le_def)

text \<open>
  A field that holds \<^verbatim>\<open>null\<close> is compared as the number 0, so a record without a numeric
  price can pass a price bound.
\<close>

lemma null_field_is_zero: "field_le (Some JNull) 2000 = Inr True"
  by (simp add: field_le_def)

text \<open>One filter statement on a list whose records the criterion can read.\<close>

lemma stage_str:
  assumes "truthy_str v \<Longrightarrow> \<forall>p \<in> set xs. is_string (p field)"
  shows "(if truthy_str v
          then refilter (includes_filter toLowerCase field (case v of Some t \<Rightarrow> t | None \<Rightarrow> []))
                 (Inr xs)
          else Inr xs) =
         Inr (filter (str_criterion toLowerCase field v) xs)"
proof (cases "truthy_str v")
  case False
  then have "\<And>t. \<not> (v = Some t \<and> t \<noteq> [])"
    by (auto simp: truthy_str_def)
  then have "filter (str_criterion toLowerCase field v) xs = xs"
    unfolding str_criterion_def by (intro filter_True) blast
  with False show ?thesis by simp
next
  case True
  then obtain t where v: "v = Some t" "t \<noteq> []"
    by (auto simp: truthy_str_def split: option.splits)
  have "\<forall>p \<in> set xs. includes_filter toLowerCase field t p =
      Inr (str_criterion toLowerCase field v p)"
    using assms [OF True] v
    by (auto simp: includes_filter_string str_criterion_def is_string_def)
  then show ?thesis
    using True v by (simp add: refilter_def filter_exn_total)
qed

lemma stage_ge:
  assumes "truthy_num v \<Longrightarrow> \<forall>p \<in> set xs. number_or_absent (p field)"
  shows "(if truthy_num v
          then refilter (\<lambda>prop. field_ge (prop field) (case v of Some n \<Rightarrow> n | None \<Rightarrow> 0))
                 (Inr xs)
          else Inr xs) =
         Inr (filter (min_criterion field v) xs)"
proof (cases "truthy_num v")
  case False
  then have "\<And>n. \<not> (v = Some n \<and> n \<noteq> 0)"
    by (auto simp: truthy_num_def)
  then have "filter (min_criterion field v) xs = xs"
    unfolding min_criterion_def by (intro filter_True) blast
  with False show ?thesis by simp
next
  case True
  then obtain n where v: "v = Some n" "n \<noteq> 0"
    by (auto simp: truthy_num_def split: option.splits)
  have "\<forall>p \<in> set xs. field_ge (p field) n = Inr (min_criterion field v p)"
    using assms [OF True] v
    by (auto simp: number_or_absent_def min_criterion_def field_ge_number field_absent)
  then show ?thesis
    using True v by (simp add: refilter_def filter_exn_total)
qed

lemma stage_le:
  assumes "truthy_num v \<Longrightarrow> \<forall>p \<in> set xs. number_or_absent (p field)"
  shows "(if truthy_num v
          then refilter (\<lambda>prop. field_le (prop field) (case v of Some n \<Rightarrow> n | None \<Rightarrow> 0))
                 (Inr xs)
          else Inr xs) =
         Inr (filter (max_criterion field v) xs)"
proof (cases "truthy_num v")
  case False
  then have "\<And>n. \<not> (v = Some n \<and> n \<noteq> 0)"
    by (auto simp: truthy_num_def)
  then have "filter (max_criterion field v) xs = xs"
    unfolding max_criterion_def by (intro filter_True) blast
  with False show ?thesis by simp
next
  case True
  then obtain n where v: "v = Some n" "n \<noteq> 0"
    by (auto simp: truthy_num_def split: option.splits)
  have "\<forall>p \<in> set xs. field_le (p field) n = Inr (max_criterion field v p)"
    using assms [OF True] v
    by (auto simp: number_or_absent_def max_criterion_def field_le_number field_absent)
  then show ?thesis
    using True v by (simp add: refilter_def filter_exn_total)
qed

lemma filter_again: "filter Q (filter P xs) = filter (\<lambda>x. P x \<and> Q x) xs"
  by (induction xs) simp_all

lemma searchProperties_readable:
  assumes ok: "\<forall>p \<in> set (fst (readProperties w)). readable toLowerCase f p"
  shows "fst (searchProperties toLowerCase w f) =
         Inr (filter (matches toLowerCase f) (fst (readProperties w)))"
proof -
  obtain ps w1 where rd: "readProperties w = (ps, w1)"
    by (cases "readProperties w")
  have r: "\<And>p. p \<in> set ps \<Longrightarrow> readable toLowerCase f p"
    using ok rd by simp
  have s1: "(if truthy_str (propertyType f)
       then refilter (includes_filter toLowerCase ''propertyType''
              (case propertyType f of Some t \<Rightarrow> t | None \<Rightarrow> [])) (Inr ps)
       else Inr ps) = Inr (filter (meets_type toLowerCase f) ps)"
  proof -
    have "truthy_str (propertyType f) \<Longrightarrow> \<forall>p \<in> set ps. is_string (p ''propertyType'')"
      using r by (auto simp: readable_def)
    from stage_str [OF this] show ?thesis
      by (simp add: meets_type_def [abs_def])
  qed
  have s2: "(if truthy_str (location f)
       then refilter (includes_filter toLowerCase ''location''
              (case location f of Some t \<Rightarrow> t | None \<Rightarrow> []))
              (Inr (filter (meets_type toLowerCase f) ps))
       else Inr (filter (meets_type toLowerCase f) ps)) =
      Inr (filter (meets_location toLowerCase f) ps)"
  proof -
    have "truthy_str (location f) \<Longrightarrow>
        \<forall>p \<in> set (filter (meets_type toLowerCase f) ps). is_string (p ''location'')"
      using r by (auto simp: readable_def)
    from stage_str [OF this] show ?thesis
      by (simp add: filter_again meets_location_def [abs_def])
  qed
  have s3: "(if truthy_num (minPrice f)
       then refilter (\<lambda>prop. field_ge (prop ''price'')
              (case minPrice f of Some n \<Rightarrow> n | None \<Rightarrow> 0))
              (Inr (filter (meets_location toLowerCase f) ps))
       else Inr (filter (meets_location toLowerCase f) ps)) =
      Inr (filter (meets_minPrice toLowerCase f) ps)"
  proof -
    have "truthy_num (minPrice f) \<Longrightarrow>
        \<forall>p \<in> set (filter (meets_location toLowerCase f) ps). number_or_absent (p ''price'')"
      using r by (auto simp: readable_def)
    from stage_ge [OF this] show ?thesis
      by (simp add: filter_again meets_minPrice_def [abs_def])
  qed
  have s4: "(if truthy_num (maxPrice f)
       then refilter (\<lambda>prop. field_le (prop ''price'')
              (case maxPrice f of Some n \<Rightarrow> n | None \<Rightarrow> 0))
              (Inr (filter (meets_minPrice toLowerCase f) ps))
       else Inr (filter (meets_minPrice toLowerCase f) ps)) =
      Inr (filter (meets_maxPrice toLowerCase f) ps)"
  proof -
    have "truthy_num (maxPrice f) \<Longrightarrow>
        \<forall>p \<in> set (filter (meets_minPrice toLowerCase f) ps). number_or_absent (p ''price'')"
      using r by (auto simp: readable_def)
    from stage_le [OF this] show ?thesis
      by (simp add: filter_again meets_maxPrice_def [abs_def])
  qed
  have s5: "(if truthy_num (beds f)
       then refilter (\<lambda>prop. field_ge (prop ''beds'')
              (case beds f of Some n \<Rightarrow> n | None \<Rightarrow> 0))
              (Inr (filter (meets_maxPrice toLowerCase f) ps))
       else Inr (filter (meets_maxPrice toLowerCase f) ps)) =
      Inr (filter (meets_beds toLowerCase f) ps)"
  proof -
    have "truthy_num (beds f) \<Longrightarrow>
        \<forall>p \<in> set (filter (meets_maxPrice toLowerCase f) ps). number_or_absent (p ''beds'')"
      using r by (auto simp: readable_def)
    from stage_ge [OF this] show ?thesis
      by (simp add: filter_again meets_beds_def [abs_def])
  qed
  have s6: "(if truthy_num (baths f)
       then refilter (\<lambda>prop. field_ge (prop ''baths'')
              (case baths f of Some n \<Rightarrow> n | None \<Rightarrow> 0))
              (Inr (filter (meets_beds toLowerCase f) ps))
       else Inr (filter (meets_beds toLowerCase f) ps)) =
      Inr (filter (matches toLowerCase f) ps)"
  proof -
    have "truthy_num (baths f) \<Longrightarrow>
        \<forall>p \<in> set (filter (meets_beds toLowerCase f) ps). number_or_absent (p ''baths'')"
      using r by (auto simp: readable_def)
    from stage_ge [OF this] show ?thesis
      by (simp add: filter_again matches_def [abs_def])
  qed
  show ?thesis
    unfolding searchProperties_def rd Let_def prod.case fst_conv
    unfolding s1 unfolding s2 unfolding s3 unfolding s4 unfolding s5 unfolding s6
    by (rule refl)
qed

lemma searchProperties_unfiltered:
  assumes "\<not> truthy_str (propertyType f)" "\<not> truthy_str (location f)"
    "\<not> truthy_num (minPrice f)" "\<not> truthy_num (maxPrice f)"
    "\<not> truthy_num (beds f)" "\<not> truthy_num (baths f)"
  shows "fst (searchProperties toLowerCase w f) = Inr (fst (readProperties w))"
  using assms by (simp add: searchProperties_def split: prod.splits)

text \<open>The contract of the code spelt out: a record matches when it meets each of the six criteria.\<close>

lemma matches_each:
  "matches toLowerCase f p \<longleftrightarrow>
     str_criterion toLowerCase ''propertyType'' (propertyType f) p \<and>
     str_criterion toLowerCase ''location'' (location f) p \<and>
     min_criterion ''price'' (minPrice f) p \<and>
     max_criterion ''price'' (maxPrice f) p \<and>
     min_criterion ''beds'' (beds f) p \<and>
     min_criterion ''baths'' (baths f) p"
  by (auto simp: matches_def meets_beds_def meets_maxPrice_def meets_minPrice_def
      meets_location_def meets_type_def)

text \<open>A record whose five fields have the types of the request schema is readable.\<close>

lemma typed_readable:
  assumes "is_string (p ''propertyType'')" "is_string (p ''location'')"
    "number_or_absent (p ''price'')" "number_or_absent (p ''beds'')"
    "number_or_absent (p ''baths'')"
  shows "readable toLowerCase f p"
  using assms by (simp add: readable_def)

text \<open>
  C4, as the code has it. With no truthy criterion \<^verbatim>\<open>searchProperties\<close> returns the whole
  collection in stored order. On a collection whose records are readable for the filter
  set it returns, in stored order, exactly the records that meet every truthy criterion:
  \<^verbatim>\<open>propertyType\<close> and \<^verbatim>\<open>location\<close> as substrings once both sides are folded to lower
  case, \<^verbatim>\<open>minPrice\<close> and \<^verbatim>\<open>maxPrice\<close> as inclusive bounds on the price, \<^verbatim>\<open>beds\<close> and
  \<^verbatim>\<open>baths\<close> as lower bounds. This holds for every folding \<open>toLowerCase\<close>.
\<close>

theorem searchProperties_applies_truthy_criteria:
  "(\<not> truthy_str (propertyType f) \<and> \<not> truthy_str (location f) \<and>
    \<not> truthy_num (minPrice f) \<and> \<not> truthy_num (maxPrice f) \<and>
    \<not> truthy_num (beds f) \<and> \<not> truthy_num (baths f) \<longrightarrow>
      fst (searchProperties toLowerCase w f) = Inr (fst (readProperties w))) \<and>
   ((\<forall>p \<in> set (fst (readProperties w)). readable toLowerCase f p) \<longrightarrow>
      fst (searchProperties toLowerCase w f) =
        Inr (filter (matches toLowerCase f) (fst (readProperties w))))"
  using searchProperties_unfiltered [of f toLowerCase w]
    searchProperties_readable [of w toLowerCase f]
  by blast

lemma listing_fields:
  "listing ident kind amount ''propertyType'' = Some (JStr kind)"
  "listing ident kind amount ''price'' = Some (JNum amount)"
  "listing ident kind amount ''location'' = Some (JStr ''Leeds city centre'')"
  "listing ident kind amount ''beds'' = Some (JNum 2)"
  "listing ident kind amount ''baths'' = Some (JNum 1)"
  by (simp_all add: listing_def sample_form_def)

lemma listing_readable: "readable toLowerCase f (listing ident kind amount)"
  by (rule typed_readable) (simp_all add: listing_fields is_string_def number_or_absent_def)

lemma ascii_folded:
  "ascii_toLowerCase ''Flat'' = ''flat''"
  "ascii_toLowerCase ''flat'' = ''flat''"
  "ascii_toLowerCase ''House'' = ''house''"
  "ascii_toLowerCase ''LEEDS'' = ''leeds''"
  "ascii_toLowerCase ''Leeds city centre'' = ''leeds city centre''"
  by (simp_all add: ascii_toLowerCase_def lower_char_def)

lemma four_listings_search:
  "fst (searchProperties ascii_toLowerCase four_listings flats_1000_to_2000) =
     Inr [listing ''PROP_1_a'' ''Flat'' 1500, listing ''PROP_4_d'' ''Flat'' 1000]"
  by (simp add: searchProperties_def four_listings_def flats_1000_to_2000_def no_filters_def
      readProperties_def readProperties_try_def truthy_str_def truthy_num_def refilter_def
      includes_filter_def field_toLowerCase_def listing_fields ascii_folded field_ge_def
      field_le_def)

lemma listed_flat_fields:
  "listed_flat ''propertyType'' = Some (JStr ''Flat'')"
  "listed_flat ''location'' = Some (JStr ''Leeds city centre'')"
  "listed_flat ''price'' = Some (JNum 1500)"
  by (simp_all add: listed_flat_def sample_form_def)

lemma bare_house_fields:
  "bare_house ''propertyType'' = Some (JStr ''House'')"
  "bare_house ''location'' = None"
  by (simp_all add: bare_house_def)

lemma flats_in_leeds_search:
  "fst (searchProperties ascii_toLowerCase flat_and_bare_house flats_in_leeds) =
     Inr [listed_flat]"
  by (simp add: searchProperties_def flat_and_bare_house_def flats_in_leeds_def no_filters_def
      readProperties_def readProperties_try_def truthy_str_def truthy_num_def refilter_def
      includes_filter_def field_toLowerCase_def listed_flat_fields bare_house_fields
      ascii_folded)

lemma flats_in_leeds_readable:
  "readable ascii_toLowerCase flats_in_leeds listed_flat"
  "readable ascii_toLowerCase flats_in_leeds bare_house"
proof -
  have none: "\<not> truthy_num (minPrice flats_in_leeds)" "\<not> truthy_num (maxPrice flats_in_leeds)"
    "\<not> truthy_num (beds flats_in_leeds)" "\<not> truthy_num (baths flats_in_leeds)"
    by (simp_all add: flats_in_leeds_def no_filters_def truthy_num_def)
  show "readable ascii_toLowerCase flats_in_leeds listed_flat"
    using none by (simp add: readable_def listed_flat_fields is_string_def)
  have "\<not> meets_type ascii_toLowerCase flats_in_leeds bare_house"
    by (simp add: meets_type_def str_criterion_def flats_in_leeds_def no_filters_def
        bare_house_fields ci_contains_includes ascii_folded)
  then show "readable ascii_toLowerCase flats_in_leeds bare_house"
    using none by (simp add: readable_def bare_house_fields is_string_def)
qed

theorem searchProperties_applies_truthy_criteria_witness:
  "fst (searchProperties ascii_toLowerCase four_listings flats_1000_to_2000) =
     Inr [listing ''PROP_1_a'' ''Flat'' 1500, listing ''PROP_4_d'' ''Flat'' 1000] \<and>
   filter (matches ascii_toLowerCase flats_1000_to_2000)
     [listing ''PROP_1_a'' ''Flat'' 1500, listing ''PROP_2_b'' ''House'' 1200,
      listing ''PROP_3_c'' ''Flat'' 2500, listing ''PROP_4_d'' ''Flat'' 1000] =
     [listing ''PROP_1_a'' ''Flat'' 1500, listing ''PROP_4_d'' ''Flat'' 1000] \<and>
   fst (searchProperties ascii_toLowerCase four_listings no_filters) =
     Inr [listing ''PROP_1_a'' ''Flat'' 1500, listing ''PROP_2_b'' ''House'' 1200,
          listing ''PROP_3_c'' ''Flat'' 2500, listing ''PROP_4_d'' ''Flat'' 1000] \<and>
   filter (matches ascii_toLowerCase flats_in_leeds) [listed_flat, bare_house] = [listed_flat]"
proof -
  have rd: "fst (readProperties four_listings) =
      [listing ''PROP_1_a'' ''Flat'' 1500, listing ''PROP_2_b'' ''House'' 1200,
       listing ''PROP_3_c'' ''Flat'' 2500, listing ''PROP_4_d'' ''Flat'' 1000]"
    by (simp add: four_listings_def readProperties_def readProperties_try_def)
  have rd2: "fst (readProperties flat_and_bare_house) = [listed_flat, bare_house]"
    by (simp add: flat_and_bare_house_def readProperties_def readProperties_try_def)
  have ok: "\<forall>p \<in> set (fst (readProperties four_listings)).
      readable ascii_toLowerCase flats_1000_to_2000 p"
    unfolding rd by (simp add: listing_readable)
  have ok2: "\<forall>p \<in> set (fst (readProperties flat_and_bare_house)).
      readable ascii_toLowerCase flats_in_leeds p"
    unfolding rd2 by (simp add: flats_in_leeds_readable)
  have none: "\<not> truthy_str (propertyType no_filters) \<and> \<not> truthy_str (location no_filters) \<and>
      \<not> truthy_num (minPrice no_filters) \<and> \<not> truthy_num (maxPrice no_filters) \<and>
      \<not> truthy_num (beds no_filters) \<and> \<not> truthy_num (baths no_filters)"
    by (simp add: no_filters_def truthy_str_def truthy_num_def)
  from searchProperties_applies_truthy_criteria
         [of flats_1000_to_2000 ascii_toLowerCase four_listings] ok
  have a: "filter (matches ascii_toLowerCase flats_1000_to_2000)
        (fst (readProperties four_listings)) =
      [listing ''PROP_1_a'' ''Flat'' 1500, listing ''PROP_4_d'' ''Flat'' 1000]"
    using four_listings_search by simp
  from searchProperties_applies_truthy_criteria
         [of no_filters ascii_toLowerCase four_listings] none
  have b: "fst (searchProperties ascii_toLowerCase four_listings no_filters) =
      Inr (fst (readProperties four_listings))"
    by blast
  from searchProperties_applies_truthy_criteria
         [of flats_in_leeds ascii_toLowerCase flat_and_bare_house] ok2
  have c: "filter (matches ascii_toLowerCase flats_in_leeds)
        (fst (readProperties flat_and_bare_house)) = [listed_flat]"
    using flats_in_leeds_search by simp
  show ?thesis
    using a b c four_listings_search unfolding rd rd2 by simp
qed

text \<open>
  C4 as stated fails: a filter set that carries \<^verbatim>\<open>maxPrice = 0\<close> is answered with a record
  priced 1500, which does not meet the criterion; and on records that have no
  \<^verbatim>\<open>propertyType\<close> a search by type throws a \<^verbatim>\<open>TypeError\<close> instead of returning records.
\<close>

theorem searchProperties_supplied_zero_counterexample:
  "fst (searchProperties ascii_toLowerCase one_flat max_price_zero) = Inr [listed_flat] \<and>
   filter (spec_matches ascii_toLowerCase max_price_zero) [listed_flat] = [] \<and>
   fst (searchProperties ascii_toLowerCase two_records flats_only) = Inl TypeError"
proof -
  have untyped: "fst (searchProperties ascii_toLowerCase two_records flats_only) = Inl TypeError"
    by (simp add: searchProperties_def two_records_def flats_only_def no_filters_def
        readProperties_def readProperties_try_def truthy_str_def truthy_num_def refilter_def
        includes_filter_def field_toLowerCase_def)
  have "fst (searchProperties ascii_toLowerCase one_flat max_price_zero) = Inr [listed_flat]"
    by (simp add: searchProperties_def one_flat_def max_price_zero_def no_filters_def
        readProperties_def readProperties_try_def truthy_str_def truthy_num_def)
  moreover have "\<not> spec_matches ascii_toLowerCase max_price_zero listed_flat"
    by (simp add: spec_matches_def max_price_zero_def no_filters_def listed_flat_fields)
  ultimately show ?thesis using untyped by simp
qed

text \<open>
  C10. A numeric criterion equal to 0 changes nothing: the search with \<^verbatim>\<open>minPrice\<close>,
  \<^verbatim>\<open>maxPrice\<close>, \<^verbatim>\<open>beds\<close> or \<^verbatim>\<open>baths\<close> equal to 0 returns what the search without that
  criterion returns, and leaves the same state behind.
\<close>

theorem searchProperties_ignores_zero:
  "(minPrice f = Some 0 \<longrightarrow>
      searchProperties toLowerCase w f = searchProperties toLowerCase w (f\<lparr>minPrice := None\<rparr>)) \<and>
   (maxPrice f = Some 0 \<longrightarrow>
      searchProperties toLowerCase w f = searchProperties toLowerCase w (f\<lparr>maxPrice := None\<rparr>)) \<and>
   (beds f = Some 0 \<longrightarrow>
      searchProperties toLowerCase w f = searchProperties toLowerCase w (f\<lparr>beds := None\<rparr>)) \<and>
   (baths f = Some 0 \<longrightarrow>
      searchProperties toLowerCase w f = searchProperties toLowerCase w (f\<lparr>baths := None\<rparr>))"
proof (intro conjI impI)
  assume "minPrice f = Some 0"
  then show "searchProperties toLowerCase w f =
      searchProperties toLowerCase w (f\<lparr>minPrice := None\<rparr>)"
    by (simp add: searchProperties_def truthy_num_def cong: if_cong)
next
  assume "maxPrice f = Some 0"
  then show "searchProperties toLowerCase w f =
      searchProperties toLowerCase w (f\<lparr>maxPrice := None\<rparr>)"
    by (simp add: searchProperties_def truthy_num_def cong: if_cong)
next
  assume "beds f = Some 0"
  then show "searchProperties toLowerCase w f =
      searchProperties toLowerCase w (f\<lparr>beds := None\<rparr>)"
    by (simp add: searchProperties_def truthy_num_def cong: if_cong)
next
  assume "baths f = Some 0"
  then show "searchProperties toLowerCase w f =
      searchProperties toLowerCase w (f\<lparr>baths := None\<rparr>)"
    by (simp add: searchProperties_def truthy_num_def cong: if_cong)
qed

theorem searchProperties_ignores_zero_witness:
  "fst (searchProperties ascii_toLowerCase four_listings flats_up_to_zero) =
     Inr [listing ''PROP_1_a'' ''Flat'' 1500, listing ''PROP_3_c'' ''Flat'' 2500,
          listing ''PROP_4_d'' ''Flat'' 1000]"
proof -
  have zero: "maxPrice flats_up_to_zero = Some 0"
    by (simp add: flats_up_to_zero_def)
  have "fst (searchProperties ascii_toLowerCase four_listings
        (flats_up_to_zero\<lparr>maxPrice := None\<rparr>)) =
      Inr [listing ''PROP_1_a'' ''Flat'' 1500, listing ''PROP_3_c'' ''Flat'' 2500,
           listing ''PROP_4_d'' ''Flat'' 1000]"
    by (simp add: searchProperties_def four_listings_def flats_up_to_zero_def no_filters_def
        readProperties_def readProperties_try_def truthy_str_def truthy_num_def refilter_def
        includes_filter_def field_toLowerCase_def listing_fields ascii_folded)
  then show ?thesis
    using searchProperties_ignores_zero [of flats_up_to_zero ascii_toLowerCase four_listings]
      zero
    by simp
qed

section \<open>Facts about record identity\<close>

lemma sample_id: "propertyId sample_create_env = ''PROP_1700000000000_4fzyo82mv''"
  by (simp add: propertyId_def sample_create_env_def show_nat.simps digit_char_def)

lemma second_id: "propertyId second_create_env = ''PROP_1700000000001_k2j9x7q1w''"
  by (simp add: propertyId_def second_create_env_def show_nat.simps digit_char_def)

lemma fst_readProperties_file:
  "properties_file w' = properties_file w \<Longrightarrow> fst (readProperties w') = fst (readProperties w)"
  by (cases "properties_file w") (simp_all add: readProperties_def readProperties_try_def)

lemma stored_identities_file:
  "properties_file w' = properties_file w \<Longrightarrow> stored_identities w' = stored_identities w"
  unfolding stored_identities_def using fst_readProperties_file [of w' w] by simp

lemma stored_identities_Json:
  "properties_file w' = Json ps \<Longrightarrow> stored_identities w' = map identity_of ps"
  by (simp add: stored_identities_def readProperties_def readProperties_try_def)

lemma writeProperties_file:
  "properties_file (snd (writeProperties w ps)) =
     (if disk_writable w then Json ps else properties_file w)"
  by (simp add: writeProperties_def)

lemma identity_newProperty:
  "propertyData ''id'' = None \<Longrightarrow>
   identity_of (newProperty propertyData env) =
     (Some (JStr (propertyId env)), Some (JStr (created_iso env)))"
  by (simp add: identity_of_def newProperty_def map_add_def)

lemma identity_merge:
  "updateData ''id'' = None \<Longrightarrow> updateData ''createdAt'' = None \<Longrightarrow>
   identity_of ((p ++ updateData)(''updatedAt'' \<mapsto> v)) = identity_of p"
  by (simp add: identity_of_def map_add_def)

lemma create_identities:
  assumes "propertyData ''id'' = None"
  shows "stored_identities (perform w (Create propertyData env)) =
         identities_after w (Create propertyData env)"
proof -
  obtain ps w1 where rd: "readProperties w = (ps, w1)"
    by (cases "readProperties w")
  have w1: "properties_file w1 = properties_file w" "disk_writable w1 = disk_writable w"
    using readProperties_snd_file [of w] readProperties_snd_writable [of w] rd by simp_all
  have ps: "stored_identities w = map identity_of ps"
    using rd by (simp add: stored_identities_def)
  let ?w2 = "snd (writeProperties w1 (ps @ [newProperty propertyData env]))"
  have eq: "perform w (Create propertyData env) = ?w2"
    by (cases "writeProperties w1 (ps @ [newProperty propertyData env])")
      (simp add: saveProperty_def rd)
  show ?thesis
  proof (cases "disk_writable w")
    case True
    then have "properties_file ?w2 = Json (ps @ [newProperty propertyData env])"
      using w1 by (simp add: writeProperties_file)
    then show ?thesis
      unfolding eq using True ps assms
      by (simp add: stored_identities_Json identity_newProperty)
  next
    case False
    then have "properties_file ?w2 = properties_file w"
      using w1 by (simp add: writeProperties_file)
    then have "stored_identities ?w2 = stored_identities w"
      by (rule stored_identities_file)
    then show ?thesis
      unfolding eq using False by simp
  qed
qed

lemma update_identities:
  assumes "updateData ''id'' = None" "updateData ''createdAt'' = None"
  shows "stored_identities (perform w (Update ident updateData now_iso)) = stored_identities w"
proof -
  obtain ps w1 where rd: "readProperties w = (ps, w1)"
    by (cases "readProperties w")
  have w1: "properties_file w1 = properties_file w" "disk_writable w1 = disk_writable w"
    using readProperties_snd_file [of w] readProperties_snd_writable [of w] rd by simp_all
  have ps: "stored_identities w = map identity_of ps"
    using rd by (simp add: stored_identities_def)
  show ?thesis
  proof (cases "findIndex (has_id ident) ps")
    case None
    then have "perform w (Update ident updateData now_iso) = w1"
      by (simp add: updateProperty_def rd)
    then show ?thesis
      using stored_identities_file [OF w1(1)] by simp
  next
    case (Some i)
    let ?r = "((ps ! i) ++ updateData)(''updatedAt'' \<mapsto> JStr now_iso)"
    let ?w2 = "snd (writeProperties w1 (ps[i := ?r]))"
    have i: "i < length ps"
      using findIndex_Some [OF Some] by simp
    have eq: "perform w (Update ident updateData now_iso) = ?w2"
      using Some by (cases "writeProperties w1 (ps[i := ?r])") (simp add: updateProperty_def rd Let_def)
    have same: "map identity_of (ps[i := ?r]) = map identity_of ps"
      using i identity_merge [OF assms, of "ps ! i" "JStr now_iso"]
      by (simp add: map_update list_update_same_conv)
    show ?thesis
    proof (cases "disk_writable w")
      case True
      then have "properties_file ?w2 = Json (ps[i := ?r])"
        using w1 by (simp add: writeProperties_file)
      then show ?thesis
        unfolding eq using ps same by (simp add: stored_identities_Json)
    next
      case False
      then have "properties_file ?w2 = properties_file w"
        using w1 by (simp add: writeProperties_file)
      then have "stored_identities ?w2 = stored_identities w"
        by (rule stored_identities_file)
      then show ?thesis
        unfolding eq by simp
    qed
  qed
qed

lemma delete_identities:
  "stored_identities (perform w (Delete ident)) = identities_after w (Delete ident)"
proof -
  obtain ps w1 where rd: "readProperties w = (ps, w1)"
    by (cases "readProperties w")
  have w1: "properties_file w1 = properties_file w" "disk_writable w1 = disk_writable w"
    using readProperties_snd_file [of w] readProperties_snd_writable [of w] rd by simp_all
  have ps: "stored_identities w = map identity_of ps"
    using rd by (simp add: stored_identities_def)
  let ?kept = "filter (\<lambda>prop. \<not> has_id ident prop) ps"
  have kept: "map identity_of ?kept =
      filter (\<lambda>i. fst i \<noteq> Some (JStr ident)) (map identity_of ps)"
    by (simp add: filter_map comp_def identity_of_def has_id_def)
  show ?thesis
  proof (cases "length ?kept = length ps")
    case True
    then have all: "?kept = ps"
      by (metis filter_id_conv length_filter_less less_irrefl)
    have "perform w (Delete ident) = w1"
      using True by (simp add: deleteProperty_def rd)
    then have "stored_identities (perform w (Delete ident)) = stored_identities w"
      using stored_identities_file [OF w1(1)] by simp
    then show ?thesis
      using ps kept all by simp
  next
    case False
    let ?w2 = "snd (writeProperties w1 ?kept)"
    have eq: "perform w (Delete ident) = ?w2"
      using False by (simp add: deleteProperty_def rd)
    show ?thesis
    proof (cases "disk_writable w")
      case True
      then have "properties_file ?w2 = Json ?kept"
        using w1 by (simp add: writeProperties_file)
      then show ?thesis
        unfolding eq using ps kept True by (simp add: stored_identities_Json)
    next
      case nw: False
      then have "properties_file ?w2 = properties_file w"
        using w1 by (simp add: writeProperties_file)
      then have "stored_identities ?w2 = stored_identities w"
        by (rule stored_identities_file)
      then show ?thesis
        unfolding eq using nw by simp
    qed
  qed
qed

lemma perform_identities:
  "keeps_identity op \<Longrightarrow> stored_identities (perform w op) = identities_after w op"
proof (cases op)
  case (Create propertyData env)
  assume "keeps_identity op"
  with Create show ?thesis using create_identities [of propertyData w env] by simp
next
  case (Update ident updateData now_iso)
  assume "keeps_identity op"
  with Update show ?thesis using update_identities [of updateData w ident now_iso] by simp
next
  case (Delete ident)
  then show ?thesis using delete_identities [of w ident] by simp
qed

lemma identities_after_subseq:
  "subseq (identities_after w op) (stored_identities w @ assigned op)"
  by (cases op) (simp_all add: list_emb_prefix)

lemma distinct_subseq:
  "subseq xs ys \<Longrightarrow> distinct ys \<Longrightarrow> distinct xs"
proof (induction rule: list_emb.induct)
  case (list_emb_Nil ys)
  then show ?case by simp
next
  case (list_emb_Cons xs ys y)
  then show ?case by simp
next
  case (list_emb_Cons2 x y xs ys)
  then have "x \<notin> set xs"
    using list_emb_set [of "(=)" xs ys x] by auto
  with list_emb_Cons2 show ?case by simp
qed

lemma run_subseq:
  "\<forall>op \<in> set ops. keeps_identity op \<Longrightarrow>
   subseq (stored_identities (run w ops)) (stored_identities w @ concat (map assigned ops))"
proof (induction ops arbitrary: w)
  case Nil
  then show ?case by simp
next
  case (Cons op ops)
  have step: "subseq (stored_identities (perform w op)) (stored_identities w @ assigned op)"
    using Cons.prems identities_after_subseq [of w op] by (simp add: perform_identities)
  have "subseq (stored_identities (run (perform w op) ops))
      (stored_identities (perform w op) @ concat (map assigned ops))"
    using Cons.IH Cons.prems by simp
  also have "subseq \<dots> ((stored_identities w @ assigned op) @ concat (map assigned ops))"
    by (rule list_emb_append_mono [OF step]) simp
  finally show ?case by simp
qed

text \<open>
  C6, as the code has it. A call whose attributes carry no \<^verbatim>\<open>id\<close> (and, for an update, no
  \<^verbatim>\<open>createdAt\<close>) treats the stored identities as it should: a creation that is written
  appends the identity it generated, an update changes no \<^verbatim>\<open>id\<close> and no \<^verbatim>\<open>createdAt\<close>, a
  deletion only removes. So after any history of such calls the stored identities are, in
  order, among those that were in the store at the start or were generated by a creation
  of the history; and if those have pairwise different ids, so have the stored records.
  The store itself compares no ids: different ids come from different clock and random
  readings.
\<close>

theorem identity_assigned_at_creation:
  "(keeps_identity op \<longrightarrow> stored_identities (perform w op) = identities_after w op) \<and>
   ((\<forall>op \<in> set ops. keeps_identity op) \<and>
    distinct (map fst (stored_identities w @ concat (map assigned ops))) \<longrightarrow>
      subseq (stored_identities (run w ops)) (stored_identities w @ concat (map assigned ops)) \<and>
      distinct (map fst (stored_identities (run w ops))))"
proof (intro conjI impI)
  assume "keeps_identity op"
  then show "stored_identities (perform w op) = identities_after w op"
    by (rule perform_identities)
next
  assume a: "(\<forall>op \<in> set ops. keeps_identity op) \<and>
    distinct (map fst (stored_identities w @ concat (map assigned ops)))"
  then show sub: "subseq (stored_identities (run w ops))
      (stored_identities w @ concat (map assigned ops))"
    by (simp add: run_subseq)
  then have "subseq (map fst (stored_identities (run w ops)))
      (map fst (stored_identities w @ concat (map assigned ops)))"
    by (rule subseq_map)
  then show "distinct (map fst (stored_identities (run w ops)))"
    using a distinct_subseq by blast
qed

lemma one_flat_identities:
  "stored_identities one_flat =
     [(Some (JStr ''PROP_1700000000000_4fzyo82mv''), Some (JStr ''2023-11-14T22:13:20.000Z''))]"
  by (simp add: stored_identities_def one_flat_def readProperties_def readProperties_try_def
      identity_of_def listed_flat_def)

theorem identity_assigned_at_creation_witness:
  "stored_identities
     (perform one_flat
        (Update ''PROP_1700000000000_4fzyo82mv'' [''price'' \<mapsto> JNum 500]
           ''2024-02-01T09:00:00.000Z'')) =
     [(Some (JStr ''PROP_1700000000000_4fzyo82mv''), Some (JStr ''2023-11-14T22:13:20.000Z''))] \<and>
   subseq (stored_identities (run empty_world history))
     [(Some (JStr ''PROP_1700000000000_4fzyo82mv''), Some (JStr ''2023-11-14T22:13:20.000Z'')),
      (Some (JStr ''PROP_1700000000001_k2j9x7q1w''), Some (JStr ''2023-11-14T22:13:20.001Z''))] \<and>
   distinct (map fst (stored_identities (run empty_world history)))"
proof -
  have keeps: "\<forall>op \<in> set history. keeps_identity op"
    by (simp add: history_def sample_form_def)
  have none: "stored_identities empty_world = []"
    by (simp add: stored_identities_def empty_world_def readProperties_def
        readProperties_try_def)
  have given: "concat (map assigned history) =
      [(Some (JStr ''PROP_1700000000000_4fzyo82mv''), Some (JStr ''2023-11-14T22:13:20.000Z'')),
       (Some (JStr ''PROP_1700000000001_k2j9x7q1w''), Some (JStr ''2023-11-14T22:13:20.001Z''))]"
  proof -
    have "created_iso sample_create_env = ''2023-11-14T22:13:20.000Z''"
      "created_iso second_create_env = ''2023-11-14T22:13:20.001Z''"
      by (simp_all add: sample_create_env_def second_create_env_def)
    then show ?thesis
      by (simp add: history_def sample_id second_id)
  qed
  have fresh: "distinct (map fst (stored_identities empty_world @ concat (map assigned history)))"
    unfolding none given by simp
  have upd: "keeps_identity (Update ''PROP_1700000000000_4fzyo82mv'' [''price'' \<mapsto> JNum 500]
      ''2024-02-01T09:00:00.000Z'')"
    by simp
  show ?thesis
    using identity_assigned_at_creation
        [of "Update ''PROP_1700000000000_4fzyo82mv'' [''price'' \<mapsto> JNum 500]
               ''2024-02-01T09:00:00.000Z''" one_flat history]
      identity_assigned_at_creation
        [of "Delete ''x''" empty_world history]
      keeps fresh upd
    by (simp add: one_flat_identities none given)
qed

text \<open>
  C6 as stated fails: an update whose attributes carry \<^verbatim>\<open>id\<close> and \<^verbatim>\<open>createdAt\<close> replaces
  both in the stored record, two creations that read the same clock value and the same
  random text store two records under one id, and a creation whose attributes carry an
  \<^verbatim>\<open>id\<close> stores that id in place of the generated one.
\<close>

theorem identity_overwritten_counterexample:
  "stored_identities one_flat =
     [(Some (JStr ''PROP_1700000000000_4fzyo82mv''), Some (JStr ''2023-11-14T22:13:20.000Z''))] \<and>
   stored_identities (perform one_flat overwrite_identity) =
     [(Some (JStr ''PROP_2_b''), Some (JStr ''1999-01-01T00:00:00.000Z''))] \<and>
   map fst (stored_identities
      (run empty_world
         [Create sample_form sample_create_env, Create sample_form sample_create_env])) =
     [Some (JStr ''PROP_1700000000000_4fzyo82mv''),
      Some (JStr ''PROP_1700000000000_4fzyo82mv'')] \<and>
   map fst (stored_identities
      (perform empty_world (Create (sample_form(''id'' \<mapsto> JStr ''mine'')) sample_create_env))) =
     [Some (JStr ''mine'')]"
proof -
  have chosen: "map fst (stored_identities
      (perform empty_world (Create (sample_form(''id'' \<mapsto> JStr ''mine'')) sample_create_env))) =
     [Some (JStr ''mine'')]"
    by (simp add: saveProperty_def empty_world_def readProperties_def readProperties_try_def
        writeProperties_def Let_def stored_identities_def identity_of_def newProperty_def
        map_add_def)
  have changed: "stored_identities (perform one_flat overwrite_identity) =
      [(Some (JStr ''PROP_2_b''), Some (JStr ''1999-01-01T00:00:00.000Z''))]"
    by (simp add: overwrite_identity_def updateProperty_def one_flat_def readProperties_def
        readProperties_try_def has_id_def listed_flat_def writeProperties_def Let_def
        stored_identities_def identity_of_def)
  have twice: "map fst (stored_identities
      (run empty_world
         [Create sample_form sample_create_env, Create sample_form sample_create_env])) =
     [Some (JStr ''PROP_1700000000000_4fzyo82mv''),
      Some (JStr ''PROP_1700000000000_4fzyo82mv'')]"
    by (simp add: saveProperty_def empty_world_def readProperties_def readProperties_try_def
        writeProperties_def Let_def stored_identities_def identity_of_def newProperty_def
        sample_form_def sample_id)
  show ?thesis
    using one_flat_identities changed twice chosen by simp
qed

end
